theory Spec2Isabelle
  imports Complex_Main
begin

section \<open>Python values used by \<open>final_Code.py\<close>\<close>

text \<open>
  The script \<open>final_Code.py\<close> drives a browser through Selenium.  Everything it computes
  itself is string handling and a little arithmetic; everything else is a call into the
  browser.  This first part embeds the Python values the script works with: exceptions,
  strings, the conversions \<open>int(str)\<close>, \<open>float(str)\<close> and \<open>str(int)\<close>, and the mixed
  integer/float arithmetic of \<open>+\<close>, \<open>-\<close>, \<open>*\<close>, \<open>/\<close>, \<open>sum\<close>, \<open>math.ceil\<close> and \<open>==\<close>.
\<close>

subsection \<open>Exceptions\<close>

text \<open>
  Every way the script can stop early is a value of \<open>error\<close>.  \<open>TimeoutException\<close> is raised
  by \<open>WebDriverWait.until\<close>, \<open>NoSuchElementException\<close> by \<open>find_element\<close>, \<open>AssertionError\<close>
  (with its message) by the three \<open>assert\<close> statements; the others are raised by Python's own
  conversions and arithmetic, or by a method call on an attribute that is still \<open>None\<close>.
\<close>

datatype error =
    TimeoutException
  | NoSuchElementException
  | AttributeError
  | TypeError
  | ValueError
  | ZeroDivisionError
  | OverflowError
  | AssertionError string

subsection \<open>Strings\<close>

text \<open>
  A Python \<open>str\<close> is a \<open>string\<close>, one \<open>char\<close> per character (the page texts the script reads
  are ASCII).  \<open>s.replace(c, "")\<close> for a one-character \<open>c\<close> removes every occurrence of \<open>c\<close>.
\<close>

definition replace_with_empty :: "char \<Rightarrow> string \<Rightarrow> string" where
  "replace_with_empty c s = filter (\<lambda>x. x \<noteq> c) s"

text \<open>
  The characters \<open>int\<close> and \<open>float\<close> skip around a literal: space, tab, line feed, vertical
  tab, form feed and carriage return.
\<close>

definition is_space :: "char \<Rightarrow> bool" where
  "is_space c = (c \<in> set [CHR '' '', CHR 0x09, CHR 0x0A, CHR 0x0B, CHR 0x0C, CHR 0x0D])"

definition strip :: "string \<Rightarrow> string" where
  "strip s = rev (dropWhile is_space (rev (dropWhile is_space s)))"

definition is_digit :: "char \<Rightarrow> bool" where
  "is_digit c = (c \<in> set ''0123456789'')"

definition digit_val :: "char \<Rightarrow> nat" where
  "digit_val c = length (takeWhile (\<lambda>d. d \<noteq> c) ''0123456789'')"

definition digits_value :: "string \<Rightarrow> nat" where
  "digits_value ds = foldl (\<lambda>a c. 10 * a + digit_val c) 0 ds"

text \<open>
  Numeric literals may group digits with single underscores: every \<open>_\<close> must stand between
  two digits.  \<open>prev\<close> is the character before the one looked at.
\<close>

fun underscores_ok :: "char option \<Rightarrow> string \<Rightarrow> bool" where
  "underscores_ok prev [] = True"
| "underscores_ok prev (c # cs) =
     (if c = CHR ''_''
      then (case prev of Some p \<Rightarrow> is_digit p | None \<Rightarrow> False)
         \<and> (case cs of d # _ \<Rightarrow> is_digit d | [] \<Rightarrow> False)
         \<and> underscores_ok (Some c) cs
      else underscores_ok (Some c) cs)"

text \<open>An optional sign in front of a literal: \<open>True\<close> for \<open>-\<close>.\<close>

definition split_sign :: "string \<Rightarrow> bool \<times> string" where
  "split_sign s =
     (case s of
        [] \<Rightarrow> (False, [])
      | c # r \<Rightarrow> if c = CHR ''-'' then (True, r)
                 else if c = CHR ''+'' then (False, r)
                 else (False, s))"

subsection \<open>\<open>int(str)\<close> and \<open>str(int)\<close>\<close>

text \<open>
  \<open>int(s)\<close> in base 10: surrounding whitespace is dropped, then an optional sign and at least
  one decimal digit must remain (leading zeros are accepted).  Anything else, the empty
  string and a decimal point included, raises \<open>ValueError\<close>.  (Non-ASCII digits and the
  interpreter's limit on the number of digits are outside the model.)
\<close>

definition py_int :: "string \<Rightarrow> error + int" where
  "py_int s =
     (let (neg, body) = split_sign (strip s);
          ds = replace_with_empty (CHR ''_'') body
      in if ds \<noteq> [] \<and> underscores_ok None body \<and> list_all is_digit ds
         then Inr (if neg then - int (digits_value ds) else int (digits_value ds))
         else Inl ValueError)"

text \<open>\<open>int(x)\<close> for the result of \<open>get_attribute\<close>, which is \<open>None\<close> when the attribute is absent.\<close>

definition py_int_opt :: "string option \<Rightarrow> error + int" where
  "py_int_opt v = (case v of None \<Rightarrow> Inl TypeError | Some s \<Rightarrow> py_int s)"

fun str_nat :: "nat \<Rightarrow> string" where
  "str_nat n =
     (if n < 10 then [''0123456789'' ! n]
      else str_nat (n div 10) @ [''0123456789'' ! (n mod 10)])"

declare str_nat.simps [simp del]

definition str_int :: "int \<Rightarrow> string" where
  "str_int i = (if i < 0 then CHR ''-'' # str_nat (nat (- i)) else str_nat (nat i))"

text \<open>\<open>str(x)\<close> inside an f-string, for a value that may be \<open>None\<close>.\<close>

definition str_opt :: "string option \<Rightarrow> string" where
  "str_opt v = (case v of None \<Rightarrow> ''None'' | Some s \<Rightarrow> s)"

subsection \<open>Floating-point numbers\<close>

text \<open>
  The script never looks inside a float: it creates floats by \<open>float(str)\<close> and by int/int
  division, combines them with \<open>+\<close>, \<open>-\<close>, \<open>*\<close>, \<open>/\<close> and \<open>sum\<close>, and consumes them with
  \<open>math.ceil\<close>, \<open>==\<close> and string formatting.  The float type \<open>'f\<close> and these operations are
  therefore a parameter of the model, so that every theorem below holds for whatever the
  interpreter's doubles do:

  \<^item> \<open>fl q\<close> is the float nearest to the exact rational \<open>q\<close> (what a decimal literal, a
    correctly rounded conversion or int/int division yields); \<open>in_range q\<close> says that \<open>q\<close> is
    not too large to be converted (otherwise Python raises \<open>OverflowError\<close> for an integer
    operand or quotient);
  \<^item> \<open>f_inf\<close>, \<open>f_nan\<close> and \<open>f_neg\<close> are infinity, not-a-number and negation;
  \<open>f_sum\<close> is the builtin \<open>sum\<close> on a non-empty list of floats;
  \<^item> \<open>f_ceil\<close> is \<open>math.ceil\<close>, which raises on infinities and not-a-number;
  \<^item> \<open>f_eq_int\<close> is \<open>==\<close> between a float and an integer, \<open>f_repr\<close> is \<open>str\<close>.
\<close>

record 'f float_ops =
  fl :: "rat \<Rightarrow> 'f"
  in_range :: "rat \<Rightarrow> bool"
  f_inf :: "'f"
  f_nan :: "'f"
  f_neg :: "'f \<Rightarrow> 'f"
  f_add :: "'f \<Rightarrow> 'f \<Rightarrow> 'f"
  f_sub :: "'f \<Rightarrow> 'f \<Rightarrow> 'f"
  f_mul :: "'f \<Rightarrow> 'f \<Rightarrow> 'f"
  f_div :: "'f \<Rightarrow> 'f \<Rightarrow> 'f"
  f_is_zero :: "'f \<Rightarrow> bool"
  f_sum :: "'f list \<Rightarrow> 'f"
  f_ceil :: "'f \<Rightarrow> error + int"
  f_eq_int :: "'f \<Rightarrow> int \<Rightarrow> bool"
  f_repr :: "'f \<Rightarrow> string"

text \<open>A Python number is an \<open>int\<close> or a \<open>float\<close>.\<close>

datatype 'f pynum = PInt int | PFloat 'f

text \<open>Conversion of an operand to float, as mixed arithmetic does it.\<close>

definition to_float :: "'f float_ops \<Rightarrow> 'f pynum \<Rightarrow> error + 'f" where
  "to_float F x =
     (case x of
        PFloat a \<Rightarrow> Inr a
      | PInt i \<Rightarrow> if in_range F (of_int i) then Inr (fl F (of_int i)) else Inl OverflowError)"

definition float_binop ::
  "'f float_ops \<Rightarrow> ('f \<Rightarrow> 'f \<Rightarrow> 'f) \<Rightarrow> 'f pynum \<Rightarrow> 'f pynum \<Rightarrow> error + 'f pynum" where
  "float_binop F op x y =
     (case to_float F x of
        Inl e \<Rightarrow> Inl e
      | Inr a \<Rightarrow> (case to_float F y of Inl e \<Rightarrow> Inl e | Inr b \<Rightarrow> Inr (PFloat (op a b))))"

fun py_add :: "'f float_ops \<Rightarrow> 'f pynum \<Rightarrow> 'f pynum \<Rightarrow> error + 'f pynum" where
  "py_add F (PInt a) (PInt b) = Inr (PInt (a + b))"
| "py_add F x y = float_binop F (f_add F) x y"

fun py_sub :: "'f float_ops \<Rightarrow> 'f pynum \<Rightarrow> 'f pynum \<Rightarrow> error + 'f pynum" where
  "py_sub F (PInt a) (PInt b) = Inr (PInt (a - b))"
| "py_sub F x y = float_binop F (f_sub F) x y"

fun py_mul :: "'f float_ops \<Rightarrow> 'f pynum \<Rightarrow> 'f pynum \<Rightarrow> error + 'f pynum" where
  "py_mul F (PInt a) (PInt b) = Inr (PInt (a * b))"
| "py_mul F x y = float_binop F (f_mul F) x y"

text \<open>
  True division \<open>x / y\<close>.  Between two integers the exact quotient is rounded once; a zero
  divisor raises \<open>ZeroDivisionError\<close>.
\<close>

fun py_truediv :: "'f float_ops \<Rightarrow> 'f pynum \<Rightarrow> 'f pynum \<Rightarrow> error + 'f pynum" where
  "py_truediv F (PInt a) (PInt b) =
     (if b = 0 then Inl ZeroDivisionError
      else if in_range F (of_int a / of_int b) then Inr (PFloat (fl F (of_int a / of_int b)))
      else Inl OverflowError)"
| "py_truediv F x y =
     (case to_float F x of
        Inl e \<Rightarrow> Inl e
      | Inr a \<Rightarrow>
          (case to_float F y of
             Inl e \<Rightarrow> Inl e
           | Inr b \<Rightarrow> if f_is_zero F b then Inl ZeroDivisionError
                      else Inr (PFloat (f_div F a b))))"

text \<open>\<open>math.ceil\<close>: the identity on an \<open>int\<close>.\<close>

definition py_ceil :: "'f float_ops \<Rightarrow> 'f pynum \<Rightarrow> error + int" where
  "py_ceil F x = (case x of PInt i \<Rightarrow> Inr i | PFloat a \<Rightarrow> f_ceil F a)"

text \<open>\<open>sum(xs)\<close> for a list of floats: it starts from the integer \<open>0\<close>.\<close>

definition py_sum :: "'f float_ops \<Rightarrow> 'f list \<Rightarrow> 'f pynum" where
  "py_sum F xs = (if xs = [] then PInt 0 else PFloat (f_sum F xs))"

text \<open>\<open>x == i\<close> for a number \<open>x\<close> and an integer \<open>i\<close>.\<close>

definition py_eq_int :: "'f float_ops \<Rightarrow> 'f pynum \<Rightarrow> int \<Rightarrow> bool" where
  "py_eq_int F x i = (case x of PInt j \<Rightarrow> j = i | PFloat a \<Rightarrow> f_eq_int F a i)"

definition py_str :: "'f float_ops \<Rightarrow> 'f pynum \<Rightarrow> string" where
  "py_str F x = (case x of PInt i \<Rightarrow> str_int i | PFloat a \<Rightarrow> f_repr F a)"

subsection \<open>\<open>float(str)\<close>\<close>

text \<open>
  \<open>float(s)\<close>: surrounding whitespace is dropped; after an optional sign come \<open>inf\<close>,
  \<open>infinity\<close> or \<open>nan\<close> in any letter case, or a decimal literal: digits with an optional
  point (at least one digit in all) and an optional exponent.  Anything else raises
  \<open>ValueError\<close>.  The literal denotes an exact rational, which \<open>fl\<close> rounds.
\<close>

definition lower :: "string \<Rightarrow> string" where
  "lower s =
     map (\<lambda>c. case map_of (zip ''ABCDEFGHIJKLMNOPQRSTUVWXYZ'' ''abcdefghijklmnopqrstuvwxyz'') c of
                Some d \<Rightarrow> d
              | None \<Rightarrow> c) s"

definition pow10 :: "int \<Rightarrow> rat" where
  "pow10 e = (if 0 \<le> e then 10 ^ nat e else 1 / 10 ^ nat (- e))"

text \<open>The exponent part after \<open>e\<close>: an optional sign and at least one digit.\<close>

definition parse_exponent :: "string \<Rightarrow> int option" where
  "parse_exponent s =
     (let (neg, ds) = split_sign s
      in if ds \<noteq> [] \<and> list_all is_digit ds
         then Some (if neg then - int (digits_value ds) else int (digits_value ds))
         else None)"

text \<open>The part before the exponent: \<open>digits\<close>, \<open>digits.\<close>, \<open>.digits\<close> or \<open>digits.digits\<close>.\<close>

definition parse_mantissa :: "string \<Rightarrow> rat option" where
  "parse_mantissa s =
     (let ip = takeWhile (\<lambda>c. c \<noteq> CHR ''.'') s;
          fp = drop 1 (dropWhile (\<lambda>c. c \<noteq> CHR ''.'') s)
      in if ip @ fp \<noteq> [] \<and> list_all is_digit (ip @ fp)
         then Some (of_nat (digits_value (ip @ fp)) * pow10 (- int (length fp)))
         else None)"

definition is_exp_char :: "char \<Rightarrow> bool" where
  "is_exp_char c = (c = CHR ''e'' \<or> c = CHR ''E'')"

definition parse_decimal :: "string \<Rightarrow> rat option" where
  "parse_decimal s =
     (if \<not> underscores_ok None s then None
      else
        let t = replace_with_empty (CHR ''_'') s;
            m = takeWhile (\<lambda>c. \<not> is_exp_char c) t;
            r = dropWhile (\<lambda>c. \<not> is_exp_char c) t
        in (case parse_mantissa m of
              None \<Rightarrow> None
            | Some q \<Rightarrow>
                if r = [] then Some q
                else (case parse_exponent (drop 1 r) of
                        None \<Rightarrow> None
                      | Some e \<Rightarrow> Some (q * pow10 e))))"

definition py_float :: "'f float_ops \<Rightarrow> string \<Rightarrow> error + 'f" where
  "py_float F s =
     (let (neg, body) = split_sign (strip s);
          sgn = (\<lambda>x. if neg then f_neg F x else x)
      in if lower body = ''inf'' \<or> lower body = ''infinity'' then Inr (sgn (f_inf F))
         else if lower body = ''nan'' then Inr (f_nan F)
         else (case parse_decimal body of
                 None \<Rightarrow> Inl ValueError
               | Some q \<Rightarrow> Inr (sgn (fl F q))))"

section \<open>The browser\<close>

text \<open>
  The page under test and the browser are not part of the script.  They are a parameter of
  the model: a type \<open>'p\<close> of page states, what the script can observe of a page state, and
  how a page state changes at each command the script sends.  The page changes only in
  reaction to a command: waiting for an element, finding it and reading its attributes,
  text or geometry observe the page as it is.  An element handle is the locator the element
  was found by.
\<close>

type_synonym locator = string
type_synonym element = string

datatype key = BACKSPACE | ARROW_RIGHT | ARROW_LEFT | Chr char

text \<open>The calls the script makes into Selenium, in the order of first use.\<close>

datatype action =
    Get string
  | MaximizeWindow
  | WaitClickable locator
  | WaitPresence locator
  | FindElement locator
  | Click element
  | SendKeys element "key list"
  | GetAttribute element string
  | GetText element
  | GetRect element
  | ClickAndHold element
  | MoveByOffset int int
  | Release
  | ScrollIntoView element

text \<open>\<open>element.rect\<close>, of which the script reads \<open>x\<close> and \<open>width\<close> only.\<close>

record 'f rect =
  rx :: "'f pynum"
  rwidth :: "'f pynum"

text \<open>
  \<open>clickable\<close> and \<open>present\<close> say whether \<open>WebDriverWait(driver, 10).until\<close> finds the element
  before its timeout, \<open>findable\<close> whether \<open>find_element\<close> finds it at once; \<open>attribute\<close>,
  \<open>text_of\<close> and \<open>rect_of\<close> are \<open>get_attribute\<close>, \<open>.text\<close> and \<open>.rect\<close>; \<open>react\<close> is the effect
  of a command (navigation, click, keys, pointer gesture, scroll) on the page.
\<close>

record ('p, 'f) browser =
  clickable :: "'p \<Rightarrow> locator \<Rightarrow> bool"
  present :: "'p \<Rightarrow> locator \<Rightarrow> bool"
  findable :: "'p \<Rightarrow> locator \<Rightarrow> bool"
  attribute :: "'p \<Rightarrow> element \<Rightarrow> string \<Rightarrow> string option"
  text_of :: "'p \<Rightarrow> element \<Rightarrow> string"
  rect_of :: "'p \<Rightarrow> element \<Rightarrow> 'f rect"
  react :: "action \<Rightarrow> 'p \<Rightarrow> 'p"

section \<open>The class \<open>RevenueCalculator\<close>\<close>

text \<open>
  The attributes \<open>__init__\<close> sets.  \<open>driver\<close> and \<open>wait\<close> are the browser parameter; the three
  element attributes start as \<open>None\<close>; \<open>full_xpath\<close> is the constant template below;
  \<open>revenue_element_xpath\<close> and \<open>total_patient_xpath\<close> are never read.  Only \<open>float\<close> results are
  ever appended to \<open>list_of_CPT_code_values\<close>.
\<close>

record 'f revenue_calculator =
  value_field :: "element option"
  slider_handle :: "element option"
  slider_track :: "element option"
  min_value :: int
  max_value :: int
  target_value :: int
  amount :: int
  total_Value_of_reimbursement :: "'f pynum"
  list_of_CPT_codes :: "string list"
  list_of_CPT_code_values :: "'f list"

definition init :: "'f revenue_calculator" where
  "init =
     \<lparr> value_field = None, slider_handle = None, slider_track = None,
       min_value = 0, max_value = 2000, target_value = 820,
       amount = 0, total_Value_of_reimbursement = PInt 0,
       list_of_CPT_codes = [''CPT-99091'', ''CPT-99453'', ''CPT-99454'', ''CPT-99474''],
       list_of_CPT_code_values = [] \<rparr>"

text \<open>\<open>self.full_xpath.format(im=i)\<close>; \<open>CHR 0x27\<close> is the single quote around \<open>{im}\<close>.\<close>

definition full_xpath :: "string \<Rightarrow> locator" where
  "full_xpath im =
     ''//p[text()='' @ [CHR 0x27] @ im @ [CHR 0x27] @ '']/following-sibling::label'' @
     ''[contains(@class,'MuiFormControlLabel-root')]//span[contains(@class,'MuiButtonBase-root')]''"

definition revenue_xpath :: locator where
  "revenue_xpath = ''//div[text()='Revenue Calculator']''"

definition slider_handle_xpath :: locator where
  "slider_handle_xpath = ''//input[@type='range']''"

definition slider_track_xpath :: locator where
  "slider_track_xpath = ''//span[contains(@class,'MuiSlider-rail')]''"

definition value_field_xpath :: locator where
  "value_field_xpath = ''//input[@type='number' and contains(@class,'MuiInputBase-input')]''"

definition total_recurring_xpath :: locator where
  "total_recurring_xpath =
     ''//p[contains(text(),'Total Recurring Reimbursement for all Patients Per Month')]'' @
     ''/following-sibling::p[1]''"

subsection \<open>State and control flow\<close>

text \<open>
  A method runs on the object, the page and the log of calls made so far, and returns its
  result or the exception it raised together with the state it leaves behind: an exception
  does not undo the assignments and browser calls made before it.
\<close>

record ('p, 'f) state =
  self :: "'f revenue_calculator"
  page :: 'p
  trace :: "action list"

type_synonym ('a, 'p, 'f) prog = "('p, 'f) state \<Rightarrow> (error + 'a) \<times> ('p, 'f) state"

definition ret :: "'a \<Rightarrow> ('a, 'p, 'f) prog" where
  "ret x s = (Inr x, s)"

definition raise :: "error \<Rightarrow> ('a, 'p, 'f) prog" where
  "raise e s = (Inl e, s)"

definition lift :: "error + 'a \<Rightarrow> ('a, 'p, 'f) prog" where
  "lift r s = (r, s)"

definition bindE :: "('a, 'p, 'f) prog \<Rightarrow> ('a \<Rightarrow> ('b, 'p, 'f) prog) \<Rightarrow> ('b, 'p, 'f) prog" where
  "bindE m f s = (case m s of (Inl e, s') \<Rightarrow> (Inl e, s') | (Inr x, s') \<Rightarrow> f x s')"

text \<open>\<open>try: m  except: h\<close> with a bare \<open>except\<close>.\<close>

definition try_except :: "('a, 'p, 'f) prog \<Rightarrow> (unit, 'p, 'f) prog \<Rightarrow> (unit, 'p, 'f) prog" where
  "try_except m h s = (case m s of (Inl e, s') \<Rightarrow> h s' | (Inr x, s') \<Rightarrow> (Inr (), s'))"

definition get_self :: "('f revenue_calculator, 'p, 'f) prog" where
  "get_self s = (Inr (self s), s)"

definition set_self :: "('f revenue_calculator \<Rightarrow> 'f revenue_calculator) \<Rightarrow> (unit, 'p, 'f) prog" where
  "set_self upd s = (Inr (), s\<lparr>self := upd (self s)\<rparr>)"

text \<open>A method call on an attribute that may still be \<open>None\<close>.\<close>

definition deref :: "element option \<Rightarrow> (element, 'p, 'f) prog" where
  "deref h = (case h of None \<Rightarrow> raise AttributeError | Some e \<Rightarrow> ret e)"

subsection \<open>Calls into the browser\<close>

text \<open>Every call is logged; a command also lets the page react.\<close>

definition observe :: "action \<Rightarrow> ('p, 'f) state \<Rightarrow> ('p, 'f) state" where
  "observe a s = s\<lparr>trace := trace s @ [a]\<rparr>"

definition call :: "('p, 'f) browser \<Rightarrow> action \<Rightarrow> ('p, 'f) state \<Rightarrow> ('p, 'f) state" where
  "call P a s = s\<lparr>page := react P a (page s), trace := trace s @ [a]\<rparr>"

definition command :: "('p, 'f) browser \<Rightarrow> action \<Rightarrow> (unit, 'p, 'f) prog" where
  "command P a s = (Inr (), call P a s)"

definition wait_until_clickable :: "('p, 'f) browser \<Rightarrow> locator \<Rightarrow> (element, 'p, 'f) prog" where
  "wait_until_clickable P l s =
     (if clickable P (page s) l then Inr l else Inl TimeoutException, observe (WaitClickable l) s)"

definition wait_until_present :: "('p, 'f) browser \<Rightarrow> locator \<Rightarrow> (element, 'p, 'f) prog" where
  "wait_until_present P l s =
     (if present P (page s) l then Inr l else Inl TimeoutException, observe (WaitPresence l) s)"

definition find_element :: "('p, 'f) browser \<Rightarrow> locator \<Rightarrow> (element, 'p, 'f) prog" where
  "find_element P l s =
     (if findable P (page s) l then Inr l else Inl NoSuchElementException, observe (FindElement l) s)"

definition get_attribute :: "('p, 'f) browser \<Rightarrow> element \<Rightarrow> string \<Rightarrow> (string option, 'p, 'f) prog" where
  "get_attribute P e n s = (Inr (attribute P (page s) e n), observe (GetAttribute e n) s)"

definition get_text :: "('p, 'f) browser \<Rightarrow> element \<Rightarrow> (string, 'p, 'f) prog" where
  "get_text P e s = (Inr (text_of P (page s) e), observe (GetText e) s)"

definition get_rect :: "('p, 'f) browser \<Rightarrow> element \<Rightarrow> ('f rect, 'p, 'f) prog" where
  "get_rect P e s = (Inr (rect_of P (page s) e), observe (GetRect e) s)"

text \<open>
  The logical value a slider reports on a page: its \<open>aria-valuenow\<close> attribute, read as the
  script reads it, with \<open>int\<close>.
\<close>

definition reported :: "('p, 'f) browser \<Rightarrow> 'p \<Rightarrow> element \<Rightarrow> error + int" where
  "reported P p e = py_int_opt (attribute P p e ''aria-valuenow'')"

subsection \<open>Slider and textbox scenario\<close>

definition open_website :: "('p, 'f) browser \<Rightarrow> string \<Rightarrow> (unit, 'p, 'f) prog" where
  "open_website P url = bindE (command P (Get url)) (\<lambda>_. command P MaximizeWindow)"

definition click_revenue_calculator :: "('p, 'f) browser \<Rightarrow> (unit, 'p, 'f) prog" where
  "click_revenue_calculator P =
     bindE (wait_until_clickable P revenue_xpath) (\<lambda>revenue_element.
     command P (Click revenue_element))"

definition find_elements :: "('p, 'f) browser \<Rightarrow> (unit, 'p, 'f) prog" where
  "find_elements P =
     bindE (wait_until_clickable P slider_handle_xpath) (\<lambda>h.
     bindE (set_self (\<lambda>c. c\<lparr>slider_handle := Some h\<rparr>)) (\<lambda>_.
     bindE (find_element P slider_track_xpath) (\<lambda>t.
     bindE (set_self (\<lambda>c. c\<lparr>slider_track := Some t\<rparr>)) (\<lambda>_.
     bindE (find_element P value_field_xpath) (\<lambda>v.
     set_self (\<lambda>c. c\<lparr>value_field := Some v\<rparr>))))))"

text \<open>\<open>Keys.BACKSPACE * n\<close> is one string of \<open>n\<close> backspace keys; \<open>len(None)\<close> raises \<open>TypeError\<close>.\<close>

definition py_len :: "string option \<Rightarrow> error + nat" where
  "py_len v = (case v of None \<Rightarrow> Inl TypeError | Some t \<Rightarrow> Inr (length t))"

definition clear_and_set_value :: "('p, 'f) browser \<Rightarrow> string \<Rightarrow> (unit, 'p, 'f) prog" where
  "clear_and_set_value P val =
     bindE get_self (\<lambda>c.
     bindE (deref (value_field c)) (\<lambda>field.
     bindE (get_attribute P field ''value'') (\<lambda>current.
     bindE (lift (py_len current)) (\<lambda>n.
     bindE (command P (SendKeys field (replicate n BACKSPACE))) (\<lambda>_.
     command P (SendKeys field (map Chr val)))))))"

text \<open>
  The \<open>assert\<close> compares the attribute with the expected string by \<open>==\<close>; only when it fails
  is the attribute read a second time, for the message.
\<close>

definition value_mismatch_message :: "string \<Rightarrow> string option \<Rightarrow> string" where
  "value_mismatch_message expected found =
     ''Expected value '' @ expected @ '' but found '' @ str_opt found @ ''.''"

definition check_value_in_textbox :: "('p, 'f) browser \<Rightarrow> string \<Rightarrow> (unit, 'p, 'f) prog" where
  "check_value_in_textbox P expected_value =
     bindE get_self (\<lambda>c.
     bindE (deref (value_field c)) (\<lambda>field.
     bindE (get_attribute P field ''value'') (\<lambda>current.
     if current = Some expected_value then ret ()
     else bindE (get_attribute P field ''value'') (\<lambda>found.
          raise (AssertionError (value_mismatch_message expected_value found))))))"

text \<open>The first statement of \<open>move_slider_to_target\<close>.\<close>

definition target_percentage :: "'f float_ops \<Rightarrow> 'f revenue_calculator \<Rightarrow> error + 'f pynum" where
  "target_percentage F c =
     py_truediv F (PInt (target_value c - min_value c)) (PInt (max_value c - min_value c))"

text \<open>
  The statements from \<open>target_x = ...\<close> to \<open>offset_x = math.ceil(...)\<close>, with the operations in
  the order Python evaluates them.
\<close>

definition offset_x :: "'f float_ops \<Rightarrow> 'f pynum \<Rightarrow> 'f rect \<Rightarrow> 'f rect \<Rightarrow> error + int" where
  "offset_x F percentage slider_track_rect slider_handle_rect =
     (let slider_width = rwidth slider_track_rect;
          slider_start_x = rx slider_track_rect;
          slider_handle_x = rx slider_handle_rect;
          slider_handle_width = rwidth slider_handle_rect
      in case py_mul F slider_width percentage of Inl e \<Rightarrow> Inl e | Inr scaled \<Rightarrow>
         case py_add F slider_start_x scaled of Inl e \<Rightarrow> Inl e | Inr target_x \<Rightarrow>
         case py_truediv F slider_handle_width (PInt 2) of Inl e \<Rightarrow> Inl e | Inr half \<Rightarrow>
         case py_sub F target_x half of Inl e \<Rightarrow> Inl e | Inr target_x' \<Rightarrow>
         case py_sub F target_x' slider_handle_x of Inl e \<Rightarrow> Inl e | Inr d \<Rightarrow>
         py_ceil F d)"

text \<open>\<open>for _ in range(n): element.send_keys(k)\<close>.\<close>

fun send_key_times :: "('p, 'f) browser \<Rightarrow> element \<Rightarrow> key \<Rightarrow> nat \<Rightarrow> ('p, 'f) state \<Rightarrow> ('p, 'f) state" where
  "send_key_times P e k 0 s = s"
| "send_key_times P e k (Suc n) s = send_key_times P e k n (call P (SendKeys e [k]) s)"

definition slider_mismatch_message :: "string option \<Rightarrow> int \<Rightarrow> string" where
  "slider_mismatch_message slider_value target =
     ''Slider value mismatch: '' @ str_opt slider_value @ '' != '' @ str_int target"

text \<open>
  The part of \<open>move_slider_to_target\<close> after the drag: read \<open>aria-valuenow\<close>, scroll the track
  into view, then one arrow key per unit of difference, or the \<open>assert\<close> when there is none.
\<close>

definition adjust_with_arrows ::
  "('p, 'f) browser \<Rightarrow> int \<Rightarrow> element \<Rightarrow> element \<Rightarrow> (unit, 'p, 'f) prog" where
  "adjust_with_arrows P target handle track =
     bindE (get_attribute P handle ''aria-valuenow'') (\<lambda>slider_value.
     bindE (lift (py_int_opt slider_value)) (\<lambda>v.
     let number_of_keys = target - v in
     bindE (command P (ScrollIntoView track)) (\<lambda>_.
     if number_of_keys > 0
     then (\<lambda>s. (Inr (), send_key_times P handle ARROW_RIGHT (nat number_of_keys) s))
     else if number_of_keys < 0
     then (\<lambda>s. (Inr (), send_key_times P handle ARROW_LEFT (nat \<bar>number_of_keys\<bar>) s))
     else bindE (get_attribute P handle ''aria-valuenow'') (\<lambda>now.
          if now = Some (str_int target) then ret ()
          else raise (AssertionError (slider_mismatch_message slider_value target))))))"

text \<open>
  The part of \<open>move_slider_to_target\<close> up to the drag: compute the pixel offset from the
  geometry of track and handle, then press, move and release.
\<close>

definition coarse_drag :: "'f float_ops \<Rightarrow> ('p, 'f) browser \<Rightarrow> (element \<times> element, 'p, 'f) prog" where
  "coarse_drag F P =
     bindE get_self (\<lambda>c.
     bindE (lift (target_percentage F c)) (\<lambda>percentage.
     bindE (deref (slider_track c)) (\<lambda>track.
     bindE (get_rect P track) (\<lambda>slider_track_rect.
     bindE (deref (slider_handle c)) (\<lambda>handle.
     bindE (get_rect P handle) (\<lambda>slider_handle_rect.
     bindE (lift (offset_x F percentage slider_track_rect slider_handle_rect)) (\<lambda>off.
     bindE (command P (ClickAndHold handle)) (\<lambda>_.
     bindE (command P (MoveByOffset off 0)) (\<lambda>_.
     bindE (command P Release) (\<lambda>_.
     ret (handle, track)))))))))))"

definition move_slider_to_target :: "'f float_ops \<Rightarrow> ('p, 'f) browser \<Rightarrow> (unit, 'p, 'f) prog" where
  "move_slider_to_target F P =
     bindE (coarse_drag F P) (\<lambda>(handle, track).
     bindE get_self (\<lambda>c.
     adjust_with_arrows P (target_value c) handle track))"

definition run :: "'f float_ops \<Rightarrow> ('p, 'f) browser \<Rightarrow> string \<Rightarrow> string \<Rightarrow> (unit, 'p, 'f) prog" where
  "run F P url target =
     bindE (open_website P url) (\<lambda>_.
     bindE (click_revenue_calculator P) (\<lambda>_.
     bindE (find_elements P) (\<lambda>_.
     bindE (move_slider_to_target F P) (\<lambda>_.
     bindE (clear_and_set_value P target) (\<lambda>_.
     check_value_in_textbox P target)))))"

subsection \<open>Reimbursement scenario\<close>

definition generate_cpt_code_xpaths :: "'f revenue_calculator \<Rightarrow> locator list" where
  "generate_cpt_code_xpaths c = map full_xpath (list_of_CPT_codes c)"

definition parent :: string where
  "parent = ''/parent::*/parent::*''"

definition recuring_text :: string where
  "recuring_text = ''//div[contains(@class,'MuiChip-root')]//span[text()='One Time']''"

text \<open>\<open>float(reimbursement.replace("$", "").replace(",", ""))\<close>.\<close>

definition reimbursement_value :: "'f float_ops \<Rightarrow> string \<Rightarrow> error + 'f" where
  "reimbursement_value F reimbursement =
     py_float F (replace_with_empty (CHR '','') (replace_with_empty (CHR ''$'') reimbursement))"

text \<open>
  The bare \<open>except\<close> catches whatever the wait for the marker raises; the handler converts the
  text and appends the result, and an exception of the conversion propagates.
\<close>

definition checkbox_code :: "'f float_ops \<Rightarrow> ('p, 'f) browser \<Rightarrow> locator \<Rightarrow> (unit, 'p, 'f) prog" where
  "checkbox_code F P l =
     bindE (wait_until_clickable P l) (\<lambda>checkbox_element.
     bindE (wait_until_clickable P (l @ parent)) (\<lambda>parent_element.
     bindE (command P (ScrollIntoView parent_element)) (\<lambda>_.
     bindE (command P (Click checkbox_element)) (\<lambda>_.
     bindE (wait_until_present P (l @ ''/following-sibling::span'')) (\<lambda>amount_element.
     bindE (get_text P amount_element) (\<lambda>reimbursement.
     try_except (wait_until_present P (l @ parent @ recuring_text))
       (bindE (lift (reimbursement_value F reimbursement)) (\<lambda>v.
        set_self (\<lambda>c. c\<lparr>list_of_CPT_code_values := list_of_CPT_code_values c @ [v]\<rparr>)))))))))"

text \<open>The page once the checkbox of locator \<open>l\<close> has been scrolled to and clicked.\<close>

definition page_after_click :: "('p, 'f) browser \<Rightarrow> locator \<Rightarrow> 'p \<Rightarrow> 'p" where
  "page_after_click P l p = react P (Click l) (react P (ScrollIntoView (l @ parent)) p)"

text \<open>\<open>int(total_recurring_reimbursement.replace("$", "").replace(",", ""))\<close>.\<close>

definition aggregate_value :: "string \<Rightarrow> error + int" where
  "aggregate_value t =
     py_int (replace_with_empty (CHR '','') (replace_with_empty (CHR ''$'') t))"

definition count_of_patients :: "'f float_ops \<Rightarrow> ('p, 'f) browser \<Rightarrow> (unit, 'p, 'f) prog" where
  "count_of_patients F P =
     bindE (wait_until_present P total_recurring_xpath) (\<lambda>e.
     bindE (get_text P e) (\<lambda>total_recurring_reimbursement.
     bindE (lift (aggregate_value total_recurring_reimbursement)) (\<lambda>a.
     bindE (set_self (\<lambda>c. c\<lparr>amount := a\<rparr>)) (\<lambda>_.
     bindE (find_element P value_field_xpath) (\<lambda>field.
     bindE (get_attribute P field ''value'') (\<lambda>value_of_patients.
     bindE get_self (\<lambda>c.
     bindE (lift (py_int_opt value_of_patients)) (\<lambda>patients.
     bindE (lift (py_mul F (py_sum F (list_of_CPT_code_values c)) (PInt patients))) (\<lambda>computed.
     set_self (\<lambda>c. c\<lparr>total_Value_of_reimbursement := computed\<rparr>))))))))))"

definition reimbursement_mismatch_message :: "'f float_ops \<Rightarrow> 'f pynum \<Rightarrow> int \<Rightarrow> string" where
  "reimbursement_mismatch_message F computed displayed =
     ''Mismatch of total recurring reimbursement per month: '' @
     py_str F computed @ '' != '' @ str_int displayed"

definition validation_of_total_recurring_reimbursement_per_month ::
  "'f float_ops \<Rightarrow> (unit, 'p, 'f) prog" where
  "validation_of_total_recurring_reimbursement_per_month F =
     bindE get_self (\<lambda>c.
     if py_eq_int F (total_Value_of_reimbursement c) (amount c) then ret ()
     else raise (AssertionError
            (reimbursement_mismatch_message F (total_Value_of_reimbursement c) (amount c))))"

text \<open>\<open>for j in calling: self.checkbox_code(locator=j)\<close>: the first exception ends the loop.\<close>

fun for_each_checkbox :: "'f float_ops \<Rightarrow> ('p, 'f) browser \<Rightarrow> locator list \<Rightarrow> (unit, 'p, 'f) prog" where
  "for_each_checkbox F P [] = ret ()"
| "for_each_checkbox F P (j # js) = bindE (checkbox_code F P j) (\<lambda>_. for_each_checkbox F P js)"

definition execute :: "'f float_ops \<Rightarrow> ('p, 'f) browser \<Rightarrow> string \<Rightarrow> (unit, 'p, 'f) prog" where
  "execute F P url =
     bindE (open_website P url) (\<lambda>_.
     bindE (click_revenue_calculator P) (\<lambda>_.
     bindE get_self (\<lambda>c.
     bindE (for_each_checkbox F P (generate_cpt_code_xpaths c)) (\<lambda>_.
     bindE (count_of_patients F P) (\<lambda>_.
     validation_of_total_recurring_reimbursement_per_month F)))))"

subsection \<open>Conditions on the page\<close>

text \<open>
  A slider steps by one towards \<open>t\<close> when each arrow key moves its reported value by exactly
  one while the value is on the other side of \<open>t\<close>, and scrolling the track into view, the
  only other thing the script does after the drag, leaves the reported value alone.
\<close>

definition steps_by_one_towards :: "('p, 'f) browser \<Rightarrow> element \<Rightarrow> element \<Rightarrow> int \<Rightarrow> bool" where
  "steps_by_one_towards P handle track t =
     ((\<forall>p. reported P (react P (ScrollIntoView track) p) handle = reported P p handle)
      \<and> (\<forall>p u. reported P p handle = Inr u \<and> u < t
             \<longrightarrow> reported P (react P (SendKeys handle [ARROW_RIGHT]) p) handle = Inr (u + 1))
      \<and> (\<forall>p u. reported P p handle = Inr u \<and> t < u
             \<longrightarrow> reported P (react P (SendKeys handle [ARROW_LEFT]) p) handle = Inr (u - 1)))"

text \<open>
  A field accepts the value \<open>v\<close> when, whatever it holds, it reads \<open>v\<close> once as many
  backspaces as it holds characters and then the characters of \<open>v\<close> have been sent to it.
\<close>

definition accepts :: "('p, 'f) browser \<Rightarrow> element \<Rightarrow> string \<Rightarrow> bool" where
  "accepts P field v =
     (\<forall>p t. attribute P p field ''value'' = Some t
        \<longrightarrow> attribute P
              (react P (SendKeys field (map Chr v))
                 (react P (SendKeys field (replicate (length t) BACKSPACE)) p))
              field ''value'' = Some v)"

subsection \<open>Frame conditions\<close>

text \<open>
  A method \<open>preserves\<close> a view \<open>g\<close> of the object when \<open>g\<close> reads the same before and after every
  run of the method, whether it returns or raises.
\<close>

definition preserves :: "('f revenue_calculator \<Rightarrow> 'x) \<Rightarrow> ('a, 'p, 'f) prog \<Rightarrow> bool" where
  "preserves g m = (\<forall>s. g (self (snd (m s))) = g (self s))"

section \<open>A concrete arithmetic and a concrete page\<close>

text \<open>
  The theorems below hold for every float arithmetic \<open>F\<close> and every browser \<open>P\<close>.  To run the
  model on concrete inputs, this section gives one instance of each.  \<open>exact_floats\<close> computes
  without rounding; the results of the examples below (a total of 1750.0, an offset of 119
  pixels) are those of double precision as well.  Its \<open>f_repr\<close> prints integral values as
  Python does (\<open>1750.0\<close>) and other values as a fraction.
\<close>

datatype xfloat = Fin rat | Inf bool | NaN

definition xlift :: "(rat \<Rightarrow> rat \<Rightarrow> rat) \<Rightarrow> xfloat \<Rightarrow> xfloat \<Rightarrow> xfloat" where
  "xlift op a b = (case (a, b) of (Fin x, Fin y) \<Rightarrow> Fin (op x y) | _ \<Rightarrow> NaN)"

definition xneg :: "xfloat \<Rightarrow> xfloat" where
  "xneg a = (case a of Fin x \<Rightarrow> Fin (- x) | Inf b \<Rightarrow> Inf (\<not> b) | NaN \<Rightarrow> NaN)"

definition xceil :: "xfloat \<Rightarrow> error + int" where
  "xceil a = (case a of Fin x \<Rightarrow> Inr \<lceil>x\<rceil> | Inf b \<Rightarrow> Inl OverflowError | NaN \<Rightarrow> Inl ValueError)"

definition xrepr :: "xfloat \<Rightarrow> string" where
  "xrepr a =
     (case a of
        Fin x \<Rightarrow> if x = of_int \<lfloor>x\<rfloor> then str_int \<lfloor>x\<rfloor> @ ''.0''
                 else str_int (fst (quotient_of x)) @ ''/'' @ str_int (snd (quotient_of x))
      | Inf b \<Rightarrow> if b then ''-inf'' else ''inf''
      | NaN \<Rightarrow> ''nan'')"

definition exact_floats :: "xfloat float_ops" where
  "exact_floats =
     \<lparr> fl = Fin, in_range = (\<lambda>q. True), f_inf = Inf False, f_nan = NaN, f_neg = xneg,
       f_add = xlift (+), f_sub = xlift (-), f_mul = xlift (*), f_div = xlift (/),
       f_is_zero = (\<lambda>a. a = Fin 0),
       f_sum = foldl (xlift (+)) (Fin 0),
       f_ceil = xceil,
       f_eq_int = (\<lambda>a i. a = Fin (of_int i)),
       f_repr = xrepr \<rparr>"

text \<open>
  \<open>sample_browser\<close> is a page with a number input, which takes the characters of a number
  and ignores every other character typed into it, and a slider on \<open>[0, 2000]\<close> that moves by
  one per arrow key (and stays at either end) and by seven per pixel dragged.  Every element
  is there except the locators listed in \<open>missing\<close>; element texts are looked up in \<open>texts\<close>.
\<close>

record sample_page =
  field_text :: string
  slider_now :: int
  missing :: "locator list"
  texts :: "(element \<times> string) list"

text \<open>
  A plain text input with the caret at its end: a backspace removes the last character, a
  character key appends its character, the arrow keys change nothing.
\<close>

definition press :: "string \<Rightarrow> key \<Rightarrow> string" where
  "press t k = (case k of BACKSPACE \<Rightarrow> butlast t | Chr c \<Rightarrow> t @ [c] | _ \<Rightarrow> t)"

definition type_keys :: "key list \<Rightarrow> string \<Rightarrow> string" where
  "type_keys ks t = foldl press t ks"

text \<open>The keys a number input takes: digits, sign, point and exponent letter; and the others.\<close>

definition accepted_key :: "key \<Rightarrow> bool" where
  "accepted_key k = (case k of Chr c \<Rightarrow> is_digit c \<or> c \<in> set ''+-.eE'' | _ \<Rightarrow> True)"

definition clamp :: "int \<Rightarrow> int" where
  "clamp v = max 0 (min 2000 v)"

definition arrow :: "int \<Rightarrow> key \<Rightarrow> int" where
  "arrow v k =
     (case k of
        ARROW_RIGHT \<Rightarrow> if v < 2000 then v + 1 else v
      | ARROW_LEFT \<Rightarrow> if 0 < v then v - 1 else v
      | _ \<Rightarrow> v)"

definition sample_react :: "action \<Rightarrow> sample_page \<Rightarrow> sample_page" where
  "sample_react a p =
     (case a of
        SendKeys e ks \<Rightarrow>
          if e = value_field_xpath
          then p\<lparr>field_text := type_keys (filter accepted_key ks) (field_text p)\<rparr>
          else if e = slider_handle_xpath then p\<lparr>slider_now := foldl arrow (slider_now p) ks\<rparr>
          else p
      | MoveByOffset dx dy \<Rightarrow> p\<lparr>slider_now := clamp (slider_now p + 7 * dx)\<rparr>
      | _ \<Rightarrow> p)"

definition sample_attribute :: "sample_page \<Rightarrow> element \<Rightarrow> string \<Rightarrow> string option" where
  "sample_attribute p e n =
     (if e = value_field_xpath \<and> n = ''value'' then Some (field_text p)
      else if e = slider_handle_xpath \<and> n = ''aria-valuenow'' then Some (str_int (slider_now p))
      else None)"

definition sample_rect :: "sample_page \<Rightarrow> element \<Rightarrow> xfloat rect" where
  "sample_rect p e =
     (if e = slider_track_xpath then \<lparr> rx = PInt 100, rwidth = PInt 300 \<rparr>
      else \<lparr> rx = PFloat (Fin (189 / 2)), rwidth = PInt 20 \<rparr>)"

definition sample_browser :: "(sample_page, xfloat) browser" where
  "sample_browser =
     \<lparr> clickable = (\<lambda>p l. l \<notin> set (missing p)),
       present = (\<lambda>p l. l \<notin> set (missing p)),
       findable = (\<lambda>p l. l \<notin> set (missing p)),
       attribute = sample_attribute,
       text_of = (\<lambda>p e. case map_of (texts p) e of Some t \<Rightarrow> t | None \<Rightarrow> []),
       rect_of = sample_rect,
       react = sample_react \<rparr>"

text \<open>The object after \<open>find_elements\<close>, and a start state on a given page.\<close>

definition located :: "'f revenue_calculator" where
  "located =
     init\<lparr> slider_handle := Some slider_handle_xpath, slider_track := Some slider_track_xpath,
           value_field := Some value_field_xpath \<rparr>"

definition start :: "'f revenue_calculator \<Rightarrow> 'p \<Rightarrow> ('p, 'f) state" where
  "start c p = \<lparr> self = c, page = p, trace = [] \<rparr>"

definition sample_page :: "string \<Rightarrow> int \<Rightarrow> sample_page" where
  "sample_page t v = \<lparr> field_text = t, slider_now = v, missing = [], texts = [] \<rparr>"

text \<open>The object with some amounts already collected, and a page showing the totals.\<close>

definition collected :: "xfloat list \<Rightarrow> xfloat revenue_calculator" where
  "collected vs = located\<lparr>list_of_CPT_code_values := vs\<rparr>"

definition totals_page :: "string \<Rightarrow> string \<Rightarrow> sample_page" where
  "totals_page shown patients =
     \<lparr> field_text = patients, slider_now = 0, missing = [],
       texts = [(total_recurring_xpath, shown)] \<rparr>"

text \<open>A page showing one code with its amount, with or without the \<open>One Time\<close> marker.\<close>

definition code_page :: "string \<Rightarrow> string \<Rightarrow> bool \<Rightarrow> sample_page" where
  "code_page code shown one_time =
     \<lparr> field_text = [], slider_now = 0,
       missing = (if one_time then [] else [full_xpath code @ parent @ recuring_text]),
       texts = [(full_xpath code @ ''/following-sibling::span'', shown)] \<rparr>"

text \<open>
  The same page with a slider of step \<open>k\<close>: an arrow key moves it by \<open>k\<close>, and a drag leaves it
  on a multiple of \<open>k\<close>.
\<close>

definition stepped_arrow :: "int \<Rightarrow> int \<Rightarrow> key \<Rightarrow> int" where
  "stepped_arrow k v key =
     (case key of
        ARROW_RIGHT \<Rightarrow> min 2000 (v + k)
      | ARROW_LEFT \<Rightarrow> max 0 (v - k)
      | _ \<Rightarrow> v)"

definition stepped_react :: "int \<Rightarrow> action \<Rightarrow> sample_page \<Rightarrow> sample_page" where
  "stepped_react k a p =
     (case a of
        SendKeys e ks \<Rightarrow>
          if e = slider_handle_xpath
          then p\<lparr>slider_now := foldl (stepped_arrow k) (slider_now p) ks\<rparr>
          else sample_react a p
      | MoveByOffset dx dy \<Rightarrow> p\<lparr>slider_now := k * (clamp (slider_now p + 7 * dx) div k)\<rparr>
      | _ \<Rightarrow> sample_react a p)"

definition stepped_browser :: "int \<Rightarrow> (sample_page, xfloat) browser" where
  "stepped_browser k = sample_browser\<lparr>react := stepped_react k\<rparr>"

section \<open>The coarse-phase offset as the specification words it\<close>

text \<open>
  The specification gives the offset in three steps: \<open>targetFraction = (target - min) /
  (max - min)\<close>, \<open>targetPixelX = track.x + track.width * targetFraction - handle.width / 2\<close>
  and \<open>pixelOffset = ceil(targetPixelX - handle.x)\<close>.  The three definitions below follow
  these words, with Python's arithmetic; \<open>and_then\<close> passes an exception on.
\<close>

definition and_then :: "error + 'a \<Rightarrow> ('a \<Rightarrow> error + 'b) \<Rightarrow> error + 'b" where
  "and_then r f = (case r of Inl e \<Rightarrow> Inl e | Inr x \<Rightarrow> f x)"

definition spec_target_fraction :: "'f float_ops \<Rightarrow> int \<Rightarrow> int \<Rightarrow> int \<Rightarrow> error + 'f pynum" where
  "spec_target_fraction F mn mx target = py_truediv F (PInt (target - mn)) (PInt (mx - mn))"

definition spec_target_pixel_x ::
  "'f float_ops \<Rightarrow> 'f pynum \<Rightarrow> 'f rect \<Rightarrow> 'f rect \<Rightarrow> error + 'f pynum" where
  "spec_target_pixel_x F fraction track handle =
     and_then (py_mul F (rwidth track) fraction) (\<lambda>scaled.
     and_then (py_add F (rx track) scaled) (\<lambda>left.
     and_then (py_truediv F (rwidth handle) (PInt 2)) (\<lambda>half.
     py_sub F left half)))"

definition spec_pixel_offset ::
  "'f float_ops \<Rightarrow> int \<Rightarrow> int \<Rightarrow> int \<Rightarrow> 'f rect \<Rightarrow> 'f rect \<Rightarrow> error + int" where
  "spec_pixel_offset F mn mx target track handle =
     and_then (spec_target_fraction F mn mx target) (\<lambda>fraction.
     and_then (spec_target_pixel_x F fraction track handle) (\<lambda>pixel_x.
     and_then (py_sub F pixel_x (rx handle)) (py_ceil F)))"

section \<open>Properties\<close>

lemmas prog_defs = ret_def raise_def lift_def bindE_def try_except_def get_self_def set_self_def
  deref_def command_def call_def observe_def wait_until_clickable_def wait_until_present_def
  find_element_def get_attribute_def get_text_def get_rect_def

lemmas sample_defs = sample_browser_def sample_react_def sample_attribute_def sample_rect_def
  sample_page_def start_def located_def init_def press_def type_keys_def accepted_key_def arrow_def clamp_def
  value_field_xpath_def slider_handle_xpath_def slider_track_xpath_def

subsection \<open>The textbox check\<close>

text \<open>
  Claim C6.  Once the value field has been located, \<open>check_value_in_textbox\<close> returns normally
  exactly when the field's \<open>value\<close> attribute is the expected string, character for character,
  and raises \<open>AssertionError\<close> exactly when it is not.  In particular the expected value
  \<open>560\<close> is not met by a field reading \<open>560.0\<close> or \<open>0560\<close>.
\<close>

theorem check_value_in_textbox_exact:
  assumes "value_field (self s) = Some field"
  shows "(fst (check_value_in_textbox P expected s) = Inr ()
            \<longleftrightarrow> attribute P (page s) field ''value'' = Some expected)
       \<and> ((\<exists>m. fst (check_value_in_textbox P expected s) = Inl (AssertionError m))
            \<longleftrightarrow> attribute P (page s) field ''value'' \<noteq> Some expected)
       \<and> (attribute P (page s) field ''value'' \<in> {Some ''560.0'', Some ''0560''}
            \<longrightarrow> fst (check_value_in_textbox P ''560'' s)
                = Inl (AssertionError
                    (value_mismatch_message ''560'' (attribute P (page s) field ''value''))))"
  using assms by (auto simp: check_value_in_textbox_def prog_defs)

theorem check_value_in_textbox_exact_witness:
  "value_field (self (start located (sample_page ''560.0'' 0))) = Some value_field_xpath
   \<and> fst (check_value_in_textbox sample_browser ''560'' (start located (sample_page ''560.0'' 0)))
       = Inl (AssertionError ''Expected value 560 but found 560.0.'')
   \<and> fst (check_value_in_textbox sample_browser ''560'' (start located (sample_page ''560'' 0)))
       = Inr ()"
  using check_value_in_textbox_exact
          [of "start located (sample_page ''560.0'' 0)" value_field_xpath sample_browser "''560''"]
        check_value_in_textbox_exact
          [of "start located (sample_page ''560'' 0)" value_field_xpath sample_browser "''560''"]
  by (simp add: sample_defs value_mismatch_message_def str_opt_def)

lemmas parse_defs = py_int_def py_int_opt_def split_sign_def strip_def is_space_def
  replace_with_empty_def is_digit_def digits_value_def digit_val_def parse_decimal_def
  parse_mantissa_def parse_exponent_def is_exp_char_def pow10_def lower_def py_float_def
  aggregate_value_def reimbursement_value_def

lemmas float_defs = exact_floats_def xlift_def xneg_def xceil_def xrepr_def py_sum_def
  py_eq_int_def py_str_def py_ceil_def to_float_def float_binop_def

subsection \<open>The reimbursement total\<close>

text \<open>
  Claim C1.  When the aggregate text parses to \<open>a\<close>, the patient field parses to \<open>p\<close> and
  the product does not overflow, \<open>count_of_patients\<close> stores \<open>sum(collected) * p\<close> as the
  computed total and \<open>a\<close> as the displayed amount.  The validation then returns normally if
  the two are equal and otherwise raises \<open>AssertionError\<close> with a message that prints both
  the computed total and the displayed amount.
\<close>

theorem reimbursement_total_validated:
  assumes "present P (page s) total_recurring_xpath"
      and "aggregate_value (text_of P (page s) total_recurring_xpath) = Inr a"
      and "findable P (page s) value_field_xpath"
      and "py_int_opt (attribute P (page s) value_field_xpath ''value'') = Inr p"
      and "py_mul F (py_sum F (list_of_CPT_code_values (self s))) (PInt p) = Inr t"
  shows "\<exists>s'. count_of_patients F P s = (Inr (), s')
           \<and> total_Value_of_reimbursement (self s') = t
           \<and> amount (self s') = a
           \<and> validation_of_total_recurring_reimbursement_per_month F s' =
               (if py_eq_int F t a then (Inr (), s')
                else (Inl (AssertionError
                        (''Mismatch of total recurring reimbursement per month: '' @
                         py_str F t @ '' != '' @ str_int a)), s'))"
  using assms
  by (simp add: count_of_patients_def validation_of_total_recurring_reimbursement_per_month_def
        reimbursement_mismatch_message_def prog_defs)

theorem reimbursement_total_validated_witness:
  "(\<exists>s'. count_of_patients exact_floats sample_browser
            (start (collected [Fin 10, Fin 20, Fin 5]) (totals_page ''$1,750'' ''50'')) = (Inr (), s')
        \<and> total_Value_of_reimbursement (self s') = PFloat (Fin 1750)
        \<and> amount (self s') = 1750
        \<and> validation_of_total_recurring_reimbursement_per_month exact_floats s' = (Inr (), s'))
   \<and> (\<exists>s'. count_of_patients exact_floats sample_browser
            (start (collected [Fin 10, Fin 20, Fin 5]) (totals_page ''$1,800'' ''50'')) = (Inr (), s')
        \<and> total_Value_of_reimbursement (self s') = PFloat (Fin 1750)
        \<and> amount (self s') = 1800
        \<and> validation_of_total_recurring_reimbursement_per_month exact_floats s' =
             (Inl (AssertionError
                ''Mismatch of total recurring reimbursement per month: 1750.0 != 1800''), s'))"
proof -
  let ?ok = "start (collected [Fin 10, Fin 20, Fin 5]) (totals_page ''$1,750'' ''50'')"
  let ?bad = "start (collected [Fin 10, Fin 20, Fin 5]) (totals_page ''$1,800'' ''50'')"
  have pres: "present sample_browser (page ?ok) total_recurring_xpath"
             "present sample_browser (page ?bad) total_recurring_xpath"
             "findable sample_browser (page ?ok) value_field_xpath"
             "findable sample_browser (page ?bad) value_field_xpath"
    by (simp_all add: sample_browser_def start_def totals_page_def)
  have shown: "aggregate_value (text_of sample_browser (page ?ok) total_recurring_xpath) = Inr 1750"
              "aggregate_value (text_of sample_browser (page ?bad) total_recurring_xpath) = Inr 1800"
    by (simp_all add: sample_browser_def start_def totals_page_def parse_defs)
  have patients:
    "py_int_opt (attribute sample_browser (page ?ok) value_field_xpath ''value'') = Inr 50"
    "py_int_opt (attribute sample_browser (page ?bad) value_field_xpath ''value'') = Inr 50"
    by (simp_all add: sample_browser_def sample_attribute_def start_def totals_page_def parse_defs)
  have prod:
    "py_mul exact_floats (py_sum exact_floats (list_of_CPT_code_values (self ?ok))) (PInt 50)
       = Inr (PFloat (Fin 1750))"
    "py_mul exact_floats (py_sum exact_floats (list_of_CPT_code_values (self ?bad))) (PInt 50)
       = Inr (PFloat (Fin 1750))"
    by (simp_all add: start_def collected_def float_defs)
  have eq: "py_eq_int exact_floats (PFloat (Fin 1750)) 1750"
           "\<not> py_eq_int exact_floats (PFloat (Fin 1750)) 1800"
    by (simp_all add: float_defs)
  have str: "py_str exact_floats (PFloat (Fin 1750)) = ''1750.0''" "str_int 1800 = ''1800''"
    by (simp_all add: float_defs str_int_def str_nat.simps)
  show ?thesis
    using reimbursement_total_validated [OF pres(1) shown(1) pres(3) patients(1) prod(1)]
          reimbursement_total_validated [OF pres(2) shown(2) pres(4) patients(2) prod(2)]
    by (simp add: eq str)
qed

subsection \<open>Currency parsing\<close>

lemma py_float_cases: "py_float F u \<in> range Inr \<union> {Inl ValueError}"
  by (auto simp: py_float_def Let_def split: prod.splits option.splits)

lemma py_int_cases: "py_int u \<in> range Inr \<union> {Inl ValueError}"
  by (auto simp: py_int_def Let_def split: prod.splits)

text \<open>
  Claim C5, amended.  Both conversions remove every \<open>$\<close> and every \<open>,\<close> before converting:
  the per-code amount with \<open>float\<close>, the aggregate with \<open>int\<close>.  The per-code conversion maps
  \<open>$1,234.00\<close> to the float 1234.0 and \<open>$0\<close> to the float 0.0, the aggregate conversion maps
  \<open>$0\<close> to 0.  Neither is total: each returns a number or raises \<open>ValueError\<close>, as on the
  empty text.
\<close>

theorem currency_parsing_partial:
  "reimbursement_value F t = py_float F (filter (\<lambda>c. c \<noteq> CHR ''$'' \<and> c \<noteq> CHR '','') t)
   \<and> aggregate_value t = py_int (filter (\<lambda>c. c \<noteq> CHR ''$'' \<and> c \<noteq> CHR '','') t)
   \<and> reimbursement_value F t \<in> range Inr \<union> {Inl ValueError}
   \<and> aggregate_value t \<in> range Inr \<union> {Inl ValueError}
   \<and> reimbursement_value F ''$1,234.00'' = Inr (fl F 1234)
   \<and> reimbursement_value F ''$0'' = Inr (fl F 0)
   \<and> aggregate_value ''$0'' = Inr 0
   \<and> reimbursement_value F '''' = Inl ValueError
   \<and> aggregate_value '''' = Inl ValueError"
proof -
  have a: "reimbursement_value F t = py_float F (filter (\<lambda>c. c \<noteq> CHR ''$'' \<and> c \<noteq> CHR '','') t)"
    by (simp add: reimbursement_value_def replace_with_empty_def)
  have b: "aggregate_value t = py_int (filter (\<lambda>c. c \<noteq> CHR ''$'' \<and> c \<noteq> CHR '','') t)"
    by (simp add: aggregate_value_def replace_with_empty_def)
  have c: "reimbursement_value F t \<in> range Inr \<union> {Inl ValueError}"
    unfolding reimbursement_value_def by (rule py_float_cases)
  have d: "aggregate_value t \<in> range Inr \<union> {Inl ValueError}"
    unfolding aggregate_value_def by (rule py_int_cases)
  have e: "reimbursement_value F ''$1,234.00'' = Inr (fl F 1234)"
          "reimbursement_value F ''$0'' = Inr (fl F 0)"
          "reimbursement_value F '''' = Inl ValueError"
    by (simp_all add: parse_defs)
  have f: "aggregate_value ''$0'' = Inr 0" "aggregate_value '''' = Inl ValueError"
    by (simp_all add: parse_defs)
  show ?thesis using a b c d e f by blast
qed

theorem currency_parsing_partial_witness:
  "reimbursement_value exact_floats ''$12.50'' = py_float exact_floats ''12.50''
   \<and> py_float exact_floats ''12.50'' = Inr (Fin (25 / 2))
   \<and> aggregate_value ''$1,750'' = py_int ''1750''
   \<and> py_int ''1750'' = Inr 1750"
  using currency_parsing_partial [of exact_floats "''$12.50''"]
        currency_parsing_partial [of exact_floats "''$1,750''"]
  by (simp add: parse_defs exact_floats_def)

text \<open>
  The claim as written fails: a text that is no numeric literal makes both conversions
  raise, and the aggregate conversion rejects the claim's own example \<open>$1,234.00\<close>.
\<close>

theorem currency_parsing_total_counterexample:
  "reimbursement_value exact_floats ''N/A'' = Inl ValueError
   \<and> aggregate_value ''N/A'' = Inl ValueError
   \<and> aggregate_value ''$1,234.00'' = Inl ValueError"
  by (simp add: parse_defs)

subsection \<open>The two conversions\<close>

lemma in_dropWhile: "x \<in> set xs \<Longrightarrow> \<not> P x \<Longrightarrow> x \<in> set (dropWhile P xs)"
  by (induction xs) auto
lemma in_strip: "x \<in> set s \<Longrightarrow> \<not> is_space x \<Longrightarrow> x \<in> set (strip s)"
  by (simp add: strip_def in_dropWhile)
lemma in_split_sign:
  "x \<in> set s \<Longrightarrow> x \<noteq> CHR ''-'' \<Longrightarrow> x \<noteq> CHR ''+'' \<Longrightarrow> x \<in> set (snd (split_sign s))"
  by (cases s) (auto simp: split_sign_def)

lemma py_int_point: "CHR ''.'' \<in> set u \<Longrightarrow> py_int u = Inl ValueError"
proof -
  assume "CHR ''.'' \<in> set u"
  then have "CHR ''.'' \<in> set (strip u)"
    by (rule in_strip) (simp add: is_space_def)
  then have "CHR ''.'' \<in> set (snd (split_sign (strip u)))"
    by (rule in_split_sign) simp_all
  then have "\<not> list_all is_digit (replace_with_empty (CHR ''_'') (snd (split_sign (strip u))))"
    by (auto simp: list_all_iff replace_with_empty_def is_digit_def)
  then show ?thesis
    by (simp add: py_int_def Let_def case_prod_beta)
qed

lemma aggregate_point: "CHR ''.'' \<in> set t \<Longrightarrow> aggregate_value t = Inl ValueError"
  unfolding aggregate_value_def
  by (rule py_int_point) (simp add: replace_with_empty_def)

lemma float_binop_float: "float_binop F op x y = Inr r \<Longrightarrow> \<exists>a. r = PFloat a"
  by (cases "to_float F x"; cases "to_float F y") (auto simp: float_binop_def)

lemma py_mul_sum:
  "py_mul F (py_sum F vs) (PInt p) = Inr x \<Longrightarrow>
     (vs = [] \<longrightarrow> x = PInt 0) \<and> (vs \<noteq> [] \<longrightarrow> (\<exists>a. x = PFloat a))"
  by (cases "vs = []") (auto simp: py_sum_def dest: float_binop_float)

lemma count_total:
  "count_of_patients F P s = (Inr (), s') \<Longrightarrow>
     \<exists>p. py_mul F (py_sum F (list_of_CPT_code_values (self s))) (PInt p)
            = Inr (total_Value_of_reimbursement (self s'))"
  unfolding count_of_patients_def prog_defs
  by (auto split: if_splits sum.splits)

text \<open>
  Claim C10, amended.  The per-code amount is converted with \<open>float\<close> and the aggregate with
  \<open>int\<close>, both after removing \<open>$\<close> and \<open>,\<close>.  An aggregate text with a decimal point makes
  the \<open>int\<close> conversion, and with it \<open>count_of_patients\<close>, raise \<open>ValueError\<close>.  The computed
  total that is later compared with the integer aggregate is a float whenever at least one
  amount was collected, and the integer \<open>0\<close> when none was.
\<close>

theorem asymmetric_parsing:
  "reimbursement_value F t = py_float F (filter (\<lambda>c. c \<noteq> CHR ''$'' \<and> c \<noteq> CHR '','') t)
   \<and> aggregate_value t = py_int (filter (\<lambda>c. c \<noteq> CHR ''$'' \<and> c \<noteq> CHR '','') t)
   \<and> (CHR ''.'' \<in> set t \<longrightarrow> aggregate_value t = Inl ValueError)
   \<and> (present P (page s) total_recurring_xpath
        \<and> CHR ''.'' \<in> set (text_of P (page s) total_recurring_xpath)
        \<longrightarrow> fst (count_of_patients F P s) = Inl ValueError)
   \<and> (count_of_patients F P s = (Inr (), s') \<and> list_of_CPT_code_values (self s) \<noteq> []
        \<longrightarrow> (\<exists>a. total_Value_of_reimbursement (self s') = PFloat a))
   \<and> (count_of_patients F P s = (Inr (), s') \<and> list_of_CPT_code_values (self s) = []
        \<longrightarrow> total_Value_of_reimbursement (self s') = PInt 0)"
proof -
  have a: "reimbursement_value F t = py_float F (filter (\<lambda>c. c \<noteq> CHR ''$'' \<and> c \<noteq> CHR '','') t)"
    by (simp add: reimbursement_value_def replace_with_empty_def)
  have b: "aggregate_value t = py_int (filter (\<lambda>c. c \<noteq> CHR ''$'' \<and> c \<noteq> CHR '','') t)"
    by (simp add: aggregate_value_def replace_with_empty_def)
  have c: "CHR ''.'' \<in> set t \<longrightarrow> aggregate_value t = Inl ValueError"
    by (simp add: aggregate_point)
  have d: "present P (page s) total_recurring_xpath
        \<and> CHR ''.'' \<in> set (text_of P (page s) total_recurring_xpath)
        \<longrightarrow> fst (count_of_patients F P s) = Inl ValueError"
  proof (intro impI, elim conjE)
    assume shown: "present P (page s) total_recurring_xpath"
       and "CHR ''.'' \<in> set (text_of P (page s) total_recurring_xpath)"
    then have "aggregate_value (text_of P (page s) total_recurring_xpath) = Inl ValueError"
      by (simp only: aggregate_point)
    with shown show "fst (count_of_patients F P s) = Inl ValueError"
      by (simp add: count_of_patients_def prog_defs)
  qed
  have e: "count_of_patients F P s = (Inr (), s') \<and> list_of_CPT_code_values (self s) \<noteq> []
        \<longrightarrow> (\<exists>a. total_Value_of_reimbursement (self s') = PFloat a)"
  proof (intro impI, elim conjE)
    assume run: "count_of_patients F P s = (Inr (), s')"
       and some: "list_of_CPT_code_values (self s) \<noteq> []"
    from count_total [OF run] obtain p where
      "py_mul F (py_sum F (list_of_CPT_code_values (self s))) (PInt p)
         = Inr (total_Value_of_reimbursement (self s'))" ..
    from py_mul_sum [OF this] some
    show "\<exists>a. total_Value_of_reimbursement (self s') = PFloat a" by simp
  qed
  have f: "count_of_patients F P s = (Inr (), s') \<and> list_of_CPT_code_values (self s) = []
        \<longrightarrow> total_Value_of_reimbursement (self s') = PInt 0"
  proof (intro impI, elim conjE)
    assume run: "count_of_patients F P s = (Inr (), s')"
       and none: "list_of_CPT_code_values (self s) = []"
    from count_total [OF run] obtain p where
      "py_mul F (py_sum F (list_of_CPT_code_values (self s))) (PInt p)
         = Inr (total_Value_of_reimbursement (self s'))" ..
    from py_mul_sum [OF this] none
    show "total_Value_of_reimbursement (self s') = PInt 0" by simp
  qed
  show ?thesis by (intro conjI a b c d e f)
qed

theorem asymmetric_parsing_witness:
  "aggregate_value ''$1,234.50'' = Inl ValueError
   \<and> fst (count_of_patients exact_floats sample_browser
             (start (collected [Fin 10]) (totals_page ''$1,234.50'' ''50''))) = Inl ValueError
   \<and> (\<exists>a. total_Value_of_reimbursement (self (snd (count_of_patients exact_floats sample_browser
             (start (collected [Fin 10, Fin 20, Fin 5]) (totals_page ''$1,750'' ''50''))))) = PFloat a)"
proof -
  let ?bad = "start (collected [Fin 10]) (totals_page ''$1,234.50'' ''50'')"
  let ?ok = "start (collected [Fin 10, Fin 20, Fin 5]) (totals_page ''$1,750'' ''50'')"
  let ?ok' = "snd (count_of_patients exact_floats sample_browser ?ok)"
  have point: "CHR ''.'' \<in> set ''$1,234.50''"
    by simp
  have shown: "present sample_browser (page ?bad) total_recurring_xpath
             \<and> CHR ''.'' \<in> set (text_of sample_browser (page ?bad) total_recurring_xpath)"
    by (simp add: sample_browser_def start_def totals_page_def)
  have "fst (count_of_patients exact_floats sample_browser ?ok) = Inr ()"
    by (simp add: count_of_patients_def prog_defs sample_browser_def sample_attribute_def
          start_def totals_page_def collected_def parse_defs float_defs)
  then have ok: "count_of_patients exact_floats sample_browser ?ok = (Inr (), ?ok')"
    by (simp add: prod_eq_iff)
  have some: "list_of_CPT_code_values (self ?ok) \<noteq> []"
    by (simp add: start_def collected_def)
  show ?thesis
    using asymmetric_parsing [of exact_floats "''$1,234.50''" sample_browser ?bad ?ok']
          asymmetric_parsing [of exact_floats "''$1,234.50''" sample_browser ?ok ?ok']
          point shown ok some
    by blast
qed

text \<open>
  The claim as written says the compared total is always a float product.  With no amount
  collected, \<open>sum([])\<close> is the integer \<open>0\<close> and so is the product.
\<close>

theorem float_product_counterexample:
  "fst (count_of_patients exact_floats sample_browser
          (start (collected []) (totals_page ''$0'' ''50''))) = Inr ()
   \<and> total_Value_of_reimbursement (self (snd (count_of_patients exact_floats sample_browser
          (start (collected []) (totals_page ''$0'' ''50''))))) = PInt 0"
  by (simp add: count_of_patients_def prog_defs sample_browser_def sample_attribute_def
        start_def totals_page_def collected_def parse_defs float_defs)

subsection \<open>The coarse-phase pixel offset\<close>

lemma offset_x_spec:
  "and_then (target_percentage F c) (\<lambda>pc. offset_x F pc tr hr)
     = spec_pixel_offset F (min_value c) (max_value c) (target_value c) tr hr"
  by (simp add: spec_pixel_offset_def spec_target_fraction_def spec_target_pixel_x_def
        target_percentage_def offset_x_def and_then_def Let_def split: sum.splits)

lemma coarse_drag_trace:
  assumes "slider_track (self s) = Some track" and "slider_handle (self s) = Some handle"
      and "spec_pixel_offset F (min_value (self s)) (max_value (self s)) (target_value (self s))
             (rect_of P (page s) track) (rect_of P (page s) handle) = Inr off"
  shows "fst (coarse_drag F P s) = Inr (handle, track)
       \<and> trace (snd (coarse_drag F P s))
           = trace s @ [GetRect track, GetRect handle,
                        ClickAndHold handle, MoveByOffset off 0, Release]"
proof -
  from assms(3) obtain pc where
    pc: "target_percentage F (self s) = Inr pc"
    and off: "offset_x F pc (rect_of P (page s) track) (rect_of P (page s) handle) = Inr off"
    unfolding offset_x_spec [symmetric] and_then_def by (auto split: sum.splits)
  show ?thesis
    using assms(1,2) pc off by (simp add: coarse_drag_def prog_defs)
qed

lemma fraction_820:
  assumes "min_value c = 0" and "max_value c = 2000" and "target_value c = 820"
      and "in_range F (41 / 100)"
  shows "target_percentage F c = Inr (PFloat (fl F (41 / 100)))"
  using assms by (simp add: target_percentage_def)

text \<open>
  Claim C3.  The offset computed by \<open>move_slider_to_target\<close> is the one of the three-step
  formula, exceptions included, and it is the offset of the drag the method performs.  For
  \<open>min = 0\<close>, \<open>max = 2000\<close> and \<open>target = 820\<close> the fraction is the float nearest to 41/100,
  which is what the literal \<open>0.41\<close> denotes.
\<close>

theorem pixel_offset_formula:
  "and_then (target_percentage F (self s)) (\<lambda>pc. offset_x F pc tr hr)
     = spec_pixel_offset F (min_value (self s)) (max_value (self s)) (target_value (self s)) tr hr
   \<and> (slider_track (self s) = Some track \<and> slider_handle (self s) = Some handle
        \<and> spec_pixel_offset F (min_value (self s)) (max_value (self s)) (target_value (self s))
              (rect_of P (page s) track) (rect_of P (page s) handle) = Inr off
        \<longrightarrow> fst (coarse_drag F P s) = Inr (handle, track)
          \<and> trace (snd (coarse_drag F P s))
              = trace s @ [GetRect track, GetRect handle,
                           ClickAndHold handle, MoveByOffset off 0, Release])
   \<and> (min_value (self s) = 0 \<and> max_value (self s) = 2000 \<and> target_value (self s) = 820
        \<and> in_range F (41 / 100)
        \<longrightarrow> target_percentage F (self s) = Inr (PFloat (fl F (41 / 100)))
          \<and> spec_target_fraction F 0 2000 820 = Inr (PFloat (fl F (41 / 100))))"
proof (intro conjI impI)
  show "and_then (target_percentage F (self s)) (\<lambda>pc. offset_x F pc tr hr)
     = spec_pixel_offset F (min_value (self s)) (max_value (self s)) (target_value (self s)) tr hr"
    by (rule offset_x_spec)
next
  assume h: "slider_track (self s) = Some track \<and> slider_handle (self s) = Some handle
        \<and> spec_pixel_offset F (min_value (self s)) (max_value (self s)) (target_value (self s))
              (rect_of P (page s) track) (rect_of P (page s) handle) = Inr off"
  from h coarse_drag_trace [of s track handle F P off]
  show "fst (coarse_drag F P s) = Inr (handle, track)" by blast
  from h coarse_drag_trace [of s track handle F P off]
  show "trace (snd (coarse_drag F P s))
          = trace s @ [GetRect track, GetRect handle,
                       ClickAndHold handle, MoveByOffset off 0, Release]" by blast
next
  assume h: "min_value (self s) = 0 \<and> max_value (self s) = 2000 \<and> target_value (self s) = 820
        \<and> in_range F (41 / 100)"
  then show "target_percentage F (self s) = Inr (PFloat (fl F (41 / 100)))"
    by (simp add: fraction_820)
  from h show "spec_target_fraction F 0 2000 820 = Inr (PFloat (fl F (41 / 100)))"
    by (simp add: spec_target_fraction_def)
qed

theorem pixel_offset_formula_witness:
  "spec_pixel_offset exact_floats 0 2000 820
      \<lparr>rx = PInt 100, rwidth = PInt 300\<rparr> \<lparr>rx = PFloat (Fin (189 / 2)), rwidth = PInt 20\<rparr> = Inr 119
   \<and> fst (coarse_drag exact_floats sample_browser (start located (sample_page ''0'' 200)))
       = Inr (slider_handle_xpath, slider_track_xpath)
   \<and> trace (snd (coarse_drag exact_floats sample_browser (start located (sample_page ''0'' 200))))
       = [GetRect slider_track_xpath, GetRect slider_handle_xpath,
          ClickAndHold slider_handle_xpath, MoveByOffset 119 0, Release]
   \<and> target_percentage exact_floats (located :: xfloat revenue_calculator) = Inr (PFloat (Fin (41 / 100)))"
proof -
  let ?s = "start located (sample_page ''0'' 200) :: (sample_page, xfloat) state"
  have cfg: "min_value (self ?s) = 0" "max_value (self ?s) = 2000" "target_value (self ?s) = 820"
            "slider_track (self ?s) = Some slider_track_xpath"
            "slider_handle (self ?s) = Some slider_handle_xpath"
            "trace ?s = []" "self ?s = located"
    by (simp_all add: start_def located_def init_def)
  have rects:
    "rect_of sample_browser (page ?s) slider_track_xpath = \<lparr>rx = PInt 100, rwidth = PInt 300\<rparr>"
    "rect_of sample_browser (page ?s) slider_handle_xpath
       = \<lparr>rx = PFloat (Fin (189 / 2)), rwidth = PInt 20\<rparr>"
    by (simp_all add: sample_browser_def sample_rect_def slider_track_xpath_def
          slider_handle_xpath_def)
  have off: "spec_pixel_offset exact_floats 0 2000 820
      \<lparr>rx = PInt 100, rwidth = PInt 300\<rparr> \<lparr>rx = PFloat (Fin (189 / 2)), rwidth = PInt 20\<rparr> = Inr 119"
  proof -
    have "\<lceil>237 / 2 :: rat\<rceil> = 119"
      by (rule ceiling_unique) simp_all
    then show ?thesis
      by (simp add: spec_pixel_offset_def spec_target_fraction_def spec_target_pixel_x_def
            and_then_def float_defs)
  qed
  have rng: "in_range exact_floats (41 / 100)"
    by (simp add: exact_floats_def)
  show ?thesis
    using pixel_offset_formula
            [of exact_floats ?s _ _ slider_track_xpath slider_handle_xpath sample_browser 119]
          cfg rects off rng
    by (simp add: exact_floats_def)
qed

subsection \<open>The one-time marker\<close>

text \<open>
  Claim C4.  For a code whose checkbox, ancestor and amount element are found and whose
  amount text converts to \<open>v\<close>, \<open>checkbox_code\<close> returns normally; it appends \<open>v\<close> to the
  collected values when the wait for the \<open>One Time\<close> marker times out, and leaves the
  collection as it was when the marker is found.
\<close>

theorem one_time_marker_decides:
  assumes "clickable P (page s) l"
      and "clickable P (page s) (l @ parent)"
      and "present P (page_after_click P l (page s)) (l @ ''/following-sibling::span'')"
      and "reimbursement_value F
             (text_of P (page_after_click P l (page s)) (l @ ''/following-sibling::span'')) = Inr v"
  shows "fst (checkbox_code F P l s) = Inr ()
       \<and> (\<not> present P (page_after_click P l (page s)) (l @ parent @ recuring_text)
            \<longrightarrow> list_of_CPT_code_values (self (snd (checkbox_code F P l s)))
                = list_of_CPT_code_values (self s) @ [v])
       \<and> (present P (page_after_click P l (page s)) (l @ parent @ recuring_text)
            \<longrightarrow> list_of_CPT_code_values (self (snd (checkbox_code F P l s)))
                = list_of_CPT_code_values (self s))"
  using assms by (simp add: checkbox_code_def page_after_click_def prog_defs)

theorem one_time_marker_decides_witness:
  "list_of_CPT_code_values (self (snd (checkbox_code exact_floats sample_browser (full_xpath ''CPT-99091'')
       (start (collected [Fin 10]) (code_page ''CPT-99091'' ''$57'' False))))) = [Fin 10, Fin 57]
   \<and> list_of_CPT_code_values (self (snd (checkbox_code exact_floats sample_browser (full_xpath ''CPT-99453'')
       (start (collected [Fin 10]) (code_page ''CPT-99453'' ''$19.50'' True))))) = [Fin 10]"
proof -
  let ?l = "full_xpath ''CPT-99091''" and ?k = "full_xpath ''CPT-99453''"
  let ?s = "start (collected [Fin 10]) (code_page ''CPT-99091'' ''$57'' False)"
  let ?t = "start (collected [Fin 10]) (code_page ''CPT-99453'' ''$19.50'' True)"
  have same: "page_after_click sample_browser ?l (page ?s) = page ?s"
             "page_after_click sample_browser ?k (page ?t) = page ?t"
    by (simp_all add: page_after_click_def sample_browser_def sample_react_def)
  have there: "clickable sample_browser (page ?s) ?l"
              "clickable sample_browser (page ?s) (?l @ parent)"
              "present sample_browser (page ?s) (?l @ ''/following-sibling::span'')"
              "\<not> present sample_browser (page ?s) (?l @ parent @ recuring_text)"
    by (simp_all add: sample_browser_def start_def code_page_def parent_def recuring_text_def)
  have there': "clickable sample_browser (page ?t) ?k"
               "clickable sample_browser (page ?t) (?k @ parent)"
               "present sample_browser (page ?t) (?k @ ''/following-sibling::span'')"
               "present sample_browser (page ?t) (?k @ parent @ recuring_text)"
    by (simp_all add: sample_browser_def start_def code_page_def)
  have amount: "reimbursement_value exact_floats
                  (text_of sample_browser (page ?s) (?l @ ''/following-sibling::span'')) = Inr (Fin 57)"
               "reimbursement_value exact_floats
                  (text_of sample_browser (page ?t) (?k @ ''/following-sibling::span''))
                  = Inr (Fin (39 / 2))"
    by (simp_all add: sample_browser_def start_def code_page_def parse_defs exact_floats_def)
  have before: "list_of_CPT_code_values (self ?s) = [Fin 10]"
               "list_of_CPT_code_values (self ?t) = [Fin 10]"
    by (simp_all add: start_def collected_def)
  show ?thesis
    using one_time_marker_decides [of sample_browser ?s ?l exact_floats "Fin 57"]
          one_time_marker_decides [of sample_browser ?t ?k exact_floats "Fin (39 / 2)"]
          same there there' amount before
    by simp
qed

subsection \<open>Setting the textbox\<close>

lemma backspaces_clear: "length t \<le> n \<Longrightarrow> type_keys (replicate n BACKSPACE) t = []"
proof (induction n arbitrary: t)
  case 0
  then show ?case by (simp add: type_keys_def)
next
  case (Suc n)
  have "length (butlast t) \<le> n" using Suc.prems by simp
  from Suc.IH [OF this] show ?case
    by (simp add: type_keys_def press_def)
qed

lemma typing_appends: "type_keys (map Chr v) t = t @ v"
  by (induction v arbitrary: t) (simp_all add: type_keys_def press_def)

lemma clear_and_set_value_run:
  assumes "value_field (self s) = Some field"
      and "attribute P (page s) field ''value'' = Some old"
  shows "clear_and_set_value P v s =
           (Inr (), s\<lparr>page := react P (SendKeys field (map Chr v))
                              (react P (SendKeys field (replicate (length old) BACKSPACE)) (page s)),
                      trace := trace s @ [GetAttribute field ''value'',
                                          SendKeys field (replicate (length old) BACKSPACE),
                                          SendKeys field (map Chr v)]\<rparr>)"
  using assms by (simp add: clear_and_set_value_def prog_defs py_len_def)

text \<open>
  A plain text input accepts every value, and the number input of \<open>sample_browser\<close> accepts
  every value made of the characters it takes.
\<close>

lemma plain_input_accepts:
  assumes "\<forall>p ks. attribute P (react P (SendKeys field ks) p) field ''value''
                   = map_option (type_keys ks) (attribute P p field ''value'')"
  shows "accepts P field v"
  using assms by (simp add: accepts_def backspaces_clear typing_appends)

lemma number_input_accepts:
  assumes "list_all (\<lambda>c. accepted_key (Chr c)) v"
  shows "accepts sample_browser value_field_xpath v"
proof -
  have "filter accepted_key (replicate n BACKSPACE) = replicate n BACKSPACE" for n
    by (simp add: accepted_key_def)
  moreover from assms have "filter accepted_key (map Chr v) = map Chr v"
    by (induction v) simp_all
  ultimately show ?thesis
    by (simp add: accepts_def sample_browser_def sample_attribute_def sample_react_def
          backspaces_clear typing_appends)
qed




subsection \<open>\<open>int(str(i))\<close> is \<open>i\<close>\<close>

text \<open>
  A slider that reports its value as \<open>str(v)\<close> is read back as \<open>v\<close> by the script's \<open>int\<close>.
\<close>

lemma digit_char: "k < 10 \<Longrightarrow> is_digit (''0123456789'' ! k) \<and> digit_val (''0123456789'' ! k) = k"
proof -
  assume "k < 10"
  then have "k = 0 \<or> k = 1 \<or> k = 2 \<or> k = 3 \<or> k = 4 \<or> k = 5 \<or> k = 6 \<or> k = 7 \<or> k = 8 \<or> k = 9"
    by arith
  then show ?thesis
    by (elim disjE) (simp_all add: is_digit_def digit_val_def)
qed

lemma digits_value_snoc: "digits_value (ds @ [c]) = 10 * digits_value ds + digit_val c"
  by (simp add: digits_value_def)

lemma str_nat_digits: "str_nat n \<noteq> [] \<and> list_all is_digit (str_nat n) \<and> digits_value (str_nat n) = n"
proof (induction n rule: str_nat.induct)
  case (1 n)
  show ?case
  proof (cases "n < 10")
    case True
    then show ?thesis
      by (subst (1 2 3) str_nat.simps) (simp add: digit_char digits_value_def)
  next
    case False
    have "n mod 10 < 10" by simp
    from digit_char [OF this] 1 [OF False] False show ?thesis
      by (subst (1 2 3) str_nat.simps) (simp add: digits_value_snoc)
  qed
qed

lemma digit_plain:
  "is_digit c \<Longrightarrow> \<not> is_space c \<and> c \<noteq> CHR ''-'' \<and> c \<noteq> CHR ''+'' \<and> c \<noteq> CHR ''_''"
  by (auto simp: is_digit_def is_space_def)

lemma dropWhile_none: "\<forall>c\<in>set xs. \<not> P c \<Longrightarrow> dropWhile P xs = xs"
  by (cases xs) simp_all

lemma strip_none: "\<forall>c\<in>set xs. \<not> is_space c \<Longrightarrow> strip xs = xs"
  by (simp add: strip_def dropWhile_none)

lemma underscores_none: "CHR ''_'' \<notin> set xs \<Longrightarrow> underscores_ok prev xs"
  by (induction xs arbitrary: prev) auto

lemma py_int_digits:
  assumes "ds \<noteq> []" and "list_all is_digit ds"
  shows "py_int ds = Inr (int (digits_value ds))"
    and "py_int (CHR ''-'' # ds) = Inr (- int (digits_value ds))"
proof -
  from assms(2) have plain: "\<forall>c\<in>set ds. \<not> is_space c \<and> c \<noteq> CHR ''-'' \<and> c \<noteq> CHR ''+'' \<and> c \<noteq> CHR ''_''"
    by (simp add: list_all_iff digit_plain)
  then have keep: "replace_with_empty (CHR ''_'') ds = ds"
    by (simp add: replace_with_empty_def filter_id_conv)
  from plain have us: "underscores_ok None ds"
    by (intro underscores_none) auto
  from plain have "strip ds = ds"
    by (simp add: strip_none)
  moreover from assms(1) plain have "split_sign ds = (False, ds)"
    by (cases ds) (simp_all add: split_sign_def)
  ultimately show "py_int ds = Inr (int (digits_value ds))"
    using assms keep us by (simp add: py_int_def)
  from plain have "strip (CHR ''-'' # ds) = CHR ''-'' # ds"
    by (intro strip_none) (simp add: is_space_def)
  moreover have "split_sign (CHR ''-'' # ds) = (True, ds)"
    by (simp add: split_sign_def)
  ultimately show "py_int (CHR ''-'' # ds) = Inr (- int (digits_value ds))"
    using assms keep us by (simp add: py_int_def)
qed

lemma py_int_str_int: "py_int (str_int i) = Inr i"
  using str_nat_digits [of "nat i"] str_nat_digits [of "nat (- i)"]
  by (simp add: str_int_def py_int_digits)

subsection \<open>What the methods leave unchanged\<close>

named_theorems frame

lemma preserves_bindE [frame]:
  assumes "preserves g m" and "\<And>x. preserves g (f x)"
  shows "preserves g (bindE m f)"
  unfolding preserves_def
proof
  fix s
  show "g (self (snd (bindE m f s))) = g (self s)"
  proof (cases "m s")
    case (Pair r s')
    with assms(1) have s': "g (self s') = g (self s)"
      unfolding preserves_def by (metis snd_conv)
    show ?thesis
    proof (cases r)
      case (Inl e)
      with Pair s' show ?thesis by (simp add: bindE_def)
    next
      case (Inr x)
      from assms(2) [of x] have "g (self (snd (f x s'))) = g (self s')"
        unfolding preserves_def by simp
      with Inr Pair s' show ?thesis by (simp add: bindE_def)
    qed
  qed
qed

lemma preserves_try_except [frame]:
  assumes "preserves g m" and "preserves g h"
  shows "preserves g (try_except m h)"
  unfolding preserves_def
proof
  fix s
  show "g (self (snd (try_except m h s))) = g (self s)"
  proof (cases "m s")
    case (Pair r s')
    with assms(1) have s': "g (self s') = g (self s)"
      unfolding preserves_def by (metis snd_conv)
    from assms(2) have "g (self (snd (h s'))) = g (self s')"
      unfolding preserves_def by simp
    with Pair s' show ?thesis by (cases r) (simp_all add: try_except_def)
  qed
qed

lemma preserves_basic [frame]:
  "preserves g (ret x)" "preserves g (raise e)" "preserves g (lift r)" "preserves g get_self"
  "preserves g (deref h)" "preserves g (command P a)"
  "preserves g (wait_until_clickable P l)" "preserves g (wait_until_present P l)"
  "preserves g (find_element P l)" "preserves g (get_attribute P el n)"
  "preserves g (get_text P el)" "preserves g (get_rect P el)"
  by (simp_all add: preserves_def prog_defs split: option.splits)

lemma preserves_set_self [frame]:
  "(\<And>c. g (upd c) = g c) \<Longrightarrow> preserves g (set_self upd)"
  by (simp add: preserves_def set_self_def)

lemma preserves_if [frame]:
  "preserves g a \<Longrightarrow> preserves g b \<Longrightarrow> preserves g (if c then a else b)"
  by simp

lemma preserves_case_prod [frame]:
  "(\<And>a b. preserves g (f a b)) \<Longrightarrow> preserves g (case x of (a, b) \<Rightarrow> f a b)"
  by (cases x) simp

lemma send_key_times_self: "self (send_key_times P e k n s) = self s"
  by (induction n arbitrary: s) (simp_all add: call_def)

lemma send_key_times_trace:
  "trace (send_key_times P e k n s) = trace s @ replicate n (SendKeys e [k])"
  by (induction n arbitrary: s) (simp_all add: call_def replicate_app_Cons_same)

lemma preserves_send_key_times [frame]:
  "preserves g (\<lambda>s. (Inr (), send_key_times P e k n s))"
  by (simp add: preserves_def send_key_times_self)

lemma preserves_coarse_drag [frame]: "preserves g (coarse_drag F P)"
  unfolding coarse_drag_def by (intro frame)

lemma preserves_adjust_with_arrows [frame]: "preserves g (adjust_with_arrows P target handle track)"
  unfolding adjust_with_arrows_def Let_def by (intro frame)

lemma preserves_move_slider_to_target [frame]: "preserves g (move_slider_to_target F P)"
  unfolding move_slider_to_target_def by (intro frame)

subsection \<open>The slider\<close>

lemma coarse_drag_run:
  assumes "slider_track (self s) = Some track" and "slider_handle (self s) = Some handle"
      and "target_percentage F (self s) = Inr pc"
      and "offset_x F pc (rect_of P (page s) track) (rect_of P (page s) handle) = Inr off"
  shows "coarse_drag F P s =
           (Inr (handle, track),
            s\<lparr>page := react P Release (react P (MoveByOffset off 0)
                          (react P (ClickAndHold handle) (page s))),
              trace := trace s @ [GetRect track, GetRect handle,
                                  ClickAndHold handle, MoveByOffset off 0, Release]\<rparr>)"
  using assms by (simp add: coarse_drag_def prog_defs)

lemma coarse_drag_needs_range:
  assumes "coarse_drag F P s = (Inr x, s1)"
  shows "min_value (self s) \<noteq> max_value (self s)"
proof
  assume "min_value (self s) = max_value (self s)"
  then have "coarse_drag F P s = (Inl ZeroDivisionError, s)"
    by (simp add: coarse_drag_def prog_defs target_percentage_def)
  with assms show False by simp
qed

lemma move_slider_after_coarse:
  assumes "coarse_drag F P s = (Inr (handle, track), s1)"
  shows "move_slider_to_target F P s = adjust_with_arrows P (target_value (self s)) handle track s1"
proof -
  have "self (snd (coarse_drag F P s)) = self s"
    using preserves_coarse_drag [of "\<lambda>c. c" F P] by (simp add: preserves_def)
  with assms have "self s1 = self s" by simp
  with assms show ?thesis
    by (simp add: move_slider_to_target_def bindE_def get_self_def)
qed

lemma adjust_with_arrows_run:
  assumes "reported P (page s1) handle = Inr v"
  shows "adjust_with_arrows P target handle track s1 =
           (let s2 = call P (ScrollIntoView track)
                       (observe (GetAttribute handle ''aria-valuenow'') s1)
            in if v < target
               then (Inr (), send_key_times P handle ARROW_RIGHT (nat (target - v)) s2)
               else if target < v
               then (Inr (), send_key_times P handle ARROW_LEFT (nat (v - target)) s2)
               else (if attribute P (page s2) handle ''aria-valuenow'' = Some (str_int target)
                     then Inr ()
                     else Inl (AssertionError
                            (slider_mismatch_message
                               (attribute P (page s1) handle ''aria-valuenow'') target)),
                     observe (GetAttribute handle ''aria-valuenow'') s2))"
  using assms
  by (simp add: adjust_with_arrows_def prog_defs reported_def Let_def)

lemma right_steps:
  assumes "\<forall>p u. reported P p h = Inr u \<and> u < t
             \<longrightarrow> reported P (react P (SendKeys h [ARROW_RIGHT]) p) h = Inr (u + 1)"
  shows "reported P (page s) h = Inr u \<Longrightarrow> u + int n \<le> t \<Longrightarrow>
         reported P (page (send_key_times P h ARROW_RIGHT n s)) h = Inr (u + int n)"
proof (induction n arbitrary: s u)
  case 0
  then show ?case by simp
next
  case (Suc n)
  from Suc.prems have "u < t" by simp
  with assms Suc.prems(1)
  have "reported P (page (call P (SendKeys h [ARROW_RIGHT]) s)) h = Inr (u + 1)"
    by (simp add: call_def)
  from Suc.IH [OF this] Suc.prems(2) show ?case by simp
qed

lemma left_steps:
  assumes "\<forall>p u. reported P p h = Inr u \<and> t < u
             \<longrightarrow> reported P (react P (SendKeys h [ARROW_LEFT]) p) h = Inr (u - 1)"
  shows "reported P (page s) h = Inr u \<Longrightarrow> t \<le> u - int n \<Longrightarrow>
         reported P (page (send_key_times P h ARROW_LEFT n s)) h = Inr (u - int n)"
proof (induction n arbitrary: s u)
  case 0
  then show ?case by simp
next
  case (Suc n)
  from Suc.prems have "t < u" by simp
  with assms Suc.prems(1)
  have "reported P (page (call P (SendKeys h [ARROW_LEFT]) s)) h = Inr (u - 1)"
    by (simp add: call_def)
  from Suc.IH [OF this] Suc.prems(2) show ?case by simp
qed


text \<open>
  When \<open>min = max\<close> the fraction raises \<open>ZeroDivisionError\<close> before anything is sent to the
  browser; a slider whose value lies within the range reports the target all the same.
\<close>

lemma slider_single_value_range:
  assumes "min_value (self s) = max_value (self s)"
      and "min_value (self s) \<le> target_value (self s)"
      and "target_value (self s) \<le> max_value (self s)"
      and "reported P (page s) handle = Inr w"
      and "min_value (self s) \<le> w" and "w \<le> max_value (self s)"
  shows "move_slider_to_target F P s = (Inl ZeroDivisionError, s)"
    and "reported P (page (snd (move_slider_to_target F P s))) handle = Inr (target_value (self s))"
proof -
  from assms(1) show run: "move_slider_to_target F P s = (Inl ZeroDivisionError, s)"
    by (simp add: move_slider_to_target_def coarse_drag_def target_percentage_def prog_defs)
  from assms have "w = target_value (self s)" by simp
  with assms(4) show "reported P (page (snd (move_slider_to_target F P s))) handle
                        = Inr (target_value (self s))"
    by (simp add: run)
qed

lemma sample_reported: "reported sample_browser p slider_handle_xpath = Inr (slider_now p)"
  by (simp add: reported_def sample_browser_def sample_attribute_def py_int_opt_def
        py_int_str_int slider_handle_xpath_def value_field_xpath_def)

lemma sample_slider_steps:
  "slider_now (react sample_browser (ScrollIntoView e) p) = slider_now p"
  "slider_now (react sample_browser (SendKeys slider_handle_xpath [ARROW_RIGHT]) p)
     = (if slider_now p < 2000 then slider_now p + 1 else slider_now p)"
  "slider_now (react sample_browser (SendKeys slider_handle_xpath [ARROW_LEFT]) p)
     = (if 0 < slider_now p then slider_now p - 1 else slider_now p)"
  by (simp_all add: sample_browser_def sample_react_def arrow_def
        slider_handle_xpath_def value_field_xpath_def)

lemma sample_coarse:
  "coarse_drag exact_floats sample_browser (start located (sample_page ''0'' 200))
     = (Inr (slider_handle_xpath, slider_track_xpath),
        \<lparr> self = located, page = sample_page ''0'' 1033,
          trace = [GetRect slider_track_xpath, GetRect slider_handle_xpath,
                   ClickAndHold slider_handle_xpath, MoveByOffset 119 0, Release] \<rparr>)"
proof -
  let ?s = "start located (sample_page ''0'' 200) :: (sample_page, xfloat) state"
  have elems: "slider_track (self ?s) = Some slider_track_xpath"
              "slider_handle (self ?s) = Some slider_handle_xpath"
    by (simp_all add: start_def located_def)
  have pc: "target_percentage exact_floats (self ?s) = Inr (PFloat (Fin (41 / 100)))"
    by (simp add: target_percentage_def start_def located_def init_def exact_floats_def)
  have ceil: "\<lceil>237 / 2 :: rat\<rceil> = 119"
    by (rule ceiling_unique) simp_all
  have off: "offset_x exact_floats (PFloat (Fin (41 / 100)))
               (rect_of sample_browser (page ?s) slider_track_xpath)
               (rect_of sample_browser (page ?s) slider_handle_xpath) = Inr 119"
    by (simp add: offset_x_def sample_browser_def sample_rect_def slider_track_xpath_def
          slider_handle_xpath_def float_defs ceil)
  show ?thesis
    by (simp add: coarse_drag_run [OF elems pc off])
       (simp add: start_def sample_page_def sample_browser_def sample_react_def clamp_def)
qed

lemma sample_steps_by_one:
  assumes "0 \<le> t" and "t \<le> 2000"
  shows "steps_by_one_towards sample_browser slider_handle_xpath slider_track_xpath t"
  using assms by (simp add: steps_by_one_towards_def sample_reported sample_slider_steps)


text \<open>
  The claim as written does not ask anything of the slider.  On a slider of step 5 the
  drag for the target 820 leaves the value 1030; the 210 arrow keys that follow move it by
  5 each, down to 0, where it stays.
\<close>

lemma stepped_reported:
  "reported (stepped_browser k) p slider_handle_xpath = Inr (slider_now p)"
  using sample_reported [of p]
  by (simp add: reported_def stepped_browser_def sample_browser_def)

lemma stepped_left_presses:
  "0 \<le> slider_now (page s) \<Longrightarrow>
   slider_now (page (send_key_times (stepped_browser 5) slider_handle_xpath ARROW_LEFT n s))
     = max 0 (slider_now (page s) - 5 * int n)"
proof (induction n arbitrary: s)
  case 0
  then show ?case by simp
next
  case (Suc n)
  let ?s' = "call (stepped_browser 5) (SendKeys slider_handle_xpath [ARROW_LEFT]) s"
  have step: "slider_now (page ?s') = max 0 (slider_now (page s) - 5)"
    by (simp add: call_def stepped_browser_def stepped_react_def stepped_arrow_def)
  then have "0 \<le> slider_now (page ?s')" by simp
  from Suc.IH [OF this] step Suc.prems show ?case by simp
qed

lemma stepped_coarse:
  "coarse_drag exact_floats (stepped_browser 5) (start located (sample_page ''0'' 200))
     = (Inr (slider_handle_xpath, slider_track_xpath),
        \<lparr> self = located, page = sample_page ''0'' 1030,
          trace = [GetRect slider_track_xpath, GetRect slider_handle_xpath,
                   ClickAndHold slider_handle_xpath, MoveByOffset 119 0, Release] \<rparr>)"
proof -
  let ?s = "start located (sample_page ''0'' 200) :: (sample_page, xfloat) state"
  have elems: "slider_track (self ?s) = Some slider_track_xpath"
              "slider_handle (self ?s) = Some slider_handle_xpath"
    by (simp_all add: start_def located_def)
  have pc: "target_percentage exact_floats (self ?s) = Inr (PFloat (Fin (41 / 100)))"
    by (simp add: target_percentage_def start_def located_def init_def exact_floats_def)
  have ceil: "\<lceil>237 / 2 :: rat\<rceil> = 119"
    by (rule ceiling_unique) simp_all
  have off: "offset_x exact_floats (PFloat (Fin (41 / 100)))
               (rect_of (stepped_browser 5) (page ?s) slider_track_xpath)
               (rect_of (stepped_browser 5) (page ?s) slider_handle_xpath) = Inr 119"
    by (simp add: offset_x_def stepped_browser_def sample_browser_def sample_rect_def
          slider_track_xpath_def slider_handle_xpath_def float_defs ceil)
  show ?thesis
    by (simp add: coarse_drag_run [OF elems pc off])
       (simp add: start_def sample_page_def stepped_browser_def stepped_react_def
          sample_react_def clamp_def)
qed




subsection \<open>The two scenarios\<close>

lemma preserves_run:
  "preserves (\<lambda>c. (list_of_CPT_code_values c, amount c, total_Value_of_reimbursement c))
     (run F P url target)"
  unfolding run_def open_website_def click_revenue_calculator_def find_elements_def
    clear_and_set_value_def check_value_in_textbox_def
  by (intro frame) simp_all

lemma preserves_checkbox_code:
  "preserves (\<lambda>c. (min_value c, max_value c, target_value c)) (checkbox_code F P l)"
  unfolding checkbox_code_def
  by (intro frame) simp_all

lemma preserves_for_each_checkbox:
  "preserves (\<lambda>c. (min_value c, max_value c, target_value c)) (for_each_checkbox F P ls)"
  by (induction ls) (simp_all add: frame preserves_checkbox_code)

lemma preserves_execute:
  "preserves (\<lambda>c. (min_value c, max_value c, target_value c)) (execute F P url)"
  unfolding execute_def open_website_def click_revenue_calculator_def count_of_patients_def
    validation_of_total_recurring_reimbursement_per_month_def
  by (intro frame preserves_for_each_checkbox) simp_all

text \<open>
  Claim C8.  Whatever the browser does and however it ends, \<open>run\<close> leaves the collected
  values, the parsed aggregate and the computed total of the object as they were, and
  \<open>execute\<close> leaves \<open>min_value\<close>, \<open>max_value\<close> and \<open>target_value\<close> as they were.
\<close>

theorem scenarios_keep_each_others_state:
  "list_of_CPT_code_values (self (snd (run F P url target s))) = list_of_CPT_code_values (self s)
   \<and> amount (self (snd (run F P url target s))) = amount (self s)
   \<and> total_Value_of_reimbursement (self (snd (run F P url target s)))
       = total_Value_of_reimbursement (self s)
   \<and> min_value (self (snd (execute F P url s))) = min_value (self s)
   \<and> max_value (self (snd (execute F P url s))) = max_value (self s)
   \<and> target_value (self (snd (execute F P url s))) = target_value (self s)"
  using preserves_run [of F P url target] preserves_execute [of F P url]
  by (simp add: preserves_def)

end
